theory Spec2Isabelle
  imports Complex_Main "HOL-Library.Sublist"
begin

section \<open>Strings and numbers of the scripts\<close>

text \<open>
  The two scripts, \<^verbatim>\<open>static/script.js\<close> and \<^verbatim>\<open>templates/script.js\<close>, are embedded as
  HOL functions. A JavaScript string is a \<^typ>\<open>string\<close>; the pictographs of the
  source are kept as their UTF-8 bytes. \<open>toLowerCase\<close> is used by the source only to
  compare a label with \<^verbatim>\<open>malignant\<close> or \<^verbatim>\<open>benign\<close>; it is modelled on the letters A to
  Z, which decides those comparisons, since no character outside ASCII lower-cases to a
  letter of the two words. \<open>toUpperCase\<close> reaches the page: on ASCII text it is
  computed here, and on a text with a character outside ASCII it is the function
  \<open>upper\<close> that the renderers take as an argument, the conversion of the platform.
\<close>

definition toLowerCase_char :: "char \<Rightarrow> char" where
  "toLowerCase_char c =
     (case map_of (zip ''ABCDEFGHIJKLMNOPQRSTUVWXYZ'' ''abcdefghijklmnopqrstuvwxyz'') c of
        Some d \<Rightarrow> d
      | None \<Rightarrow> c)"

definition toUpperCase_char :: "char \<Rightarrow> char" where
  "toUpperCase_char c =
     (case map_of (zip ''abcdefghijklmnopqrstuvwxyz'' ''ABCDEFGHIJKLMNOPQRSTUVWXYZ'') c of
        Some d \<Rightarrow> d
      | None \<Rightarrow> c)"

definition toLowerCase :: "string \<Rightarrow> string" where
  "toLowerCase s = map toLowerCase_char s"

definition ascii :: "string \<Rightarrow> bool" where
  "ascii s = list_all (\<lambda>c. (of_char c :: nat) < 128) s"

definition toUpperCase :: "(string \<Rightarrow> string) \<Rightarrow> string \<Rightarrow> string" where
  "toUpperCase upper s = (if ascii s then map toUpperCase_char s else upper s)"


text \<open>\<open>contains s t\<close>: the text \<open>t\<close> occurs in \<open>s\<close>.\<close>

fun contains :: "string \<Rightarrow> string \<Rightarrow> bool" where
  "contains [] t = (t = [])"
| "contains (c # s) t = (prefix t (c # s) \<or> contains s t)"

definition digit :: "nat \<Rightarrow> char" where
  "digit d = ''0123456789'' ! d"

text \<open>
  The decimal numeral of a natural number, as a template literal prints a count, an
  index or a status (all of them far below \<open>10\<^sup>2\<^sup>1\<close>, from where JavaScript prints
  exponent notation).
\<close>

fun show_nat :: "nat \<Rightarrow> string" where
  "show_nat n = (if n < 10 then [digit n] else show_nat (n div 10) @ [digit (n mod 10)])"

declare show_nat.simps [simp del]

text \<open>
  A JavaScript number is a binary64 value, here the rational it stands for. \<open>double x\<close>
  is the binary64 nearest to \<open>x\<close>, the one with the even significand at a tie: 53 bits
  at the exponent of \<open>x\<close>, fewer below the normal range. It is what a literal of the
  source or of a response body denotes and what every arithmetic operation returns.
  Values from \<open>2\<^sup>1\<^sup>0\<^sup>2\<^sup>4\<close> on, which JavaScript turns into \<^verbatim>\<open>Infinity\<close>, are outside
  the model.
\<close>

function bit_length :: "int \<Rightarrow> int" where
  "bit_length n = (if n \<le> 0 then 0 else 1 + bit_length (n div 2))"
  by pat_completeness auto
termination
  by (relation "measure nat") auto

declare bit_length.simps [simp del]

text \<open>For a positive \<open>x\<close>, the exponent \<open>e\<close> with \<open>2\<^sup>e \<le> x < 2\<^sup>e\<^sup>+\<^sup>1\<close>.\<close>

definition floor_log2 :: "rat \<Rightarrow> int" where
  "floor_log2 x =
     (if 1 \<le> x then bit_length \<lfloor>x\<rfloor> - 1 else - bit_length (\<lceil>1 / x\<rceil> - 1))"

definition round_even :: "rat \<Rightarrow> int" where
  "round_even m =
     (let f = \<lfloor>m\<rfloor>; d = m - of_int f
      in if d < 1 / 2 then f else if 1 / 2 < d then f + 1 else if even f then f else f + 1)"

definition double :: "rat \<Rightarrow> rat" where
  "double x =
     (if x = 0 then 0
      else (let e = max (floor_log2 \<bar>x\<bar> - 52) (- 1074)
            in sgn x * of_int (round_even (\<bar>x\<bar> / power_int 2 e)) * power_int 2 e))"

text \<open>\<^verbatim>\<open>x * y\<close>, \<^verbatim>\<open>x + y\<close> and \<^verbatim>\<open>x / y\<close> on numbers.\<close>

definition fmul :: "rat \<Rightarrow> rat \<Rightarrow> rat" where
  "fmul x y = double (double x * double y)"

definition fadd :: "rat \<Rightarrow> rat \<Rightarrow> rat" where
  "fadd x y = double (double x + double y)"

definition fdiv :: "rat \<Rightarrow> rat \<Rightarrow> rat" where
  "fdiv x y = double (double x / double y)"

text \<open>
  \<^verbatim>\<open>x.toFixed(1)\<close>: \<open>toFixed\<close> picks the integer \<open>n\<close> with \<open>n / 10\<close> nearest to the
  magnitude of the number, the larger one at a tie, and prints the sign first. From
  \<open>10\<^sup>2\<^sup>1\<close> on JavaScript prints exponent notation instead; the theorems below that let
  a value of the service reach \<open>toFixed1\<close> bound it.
\<close>

definition tenths :: "rat \<Rightarrow> nat" where
  "tenths x = nat \<lfloor>\<bar>x\<bar> * 10 + 1 / 2\<rfloor>"

definition toFixed1 :: "rat \<Rightarrow> string" where
  "toFixed1 x =
     (if x < 0 then ''-'' else []) @
     show_nat (tenths x div 10) @ ''.'' @ show_nat (tenths x mod 10)"

definition emoji_warning :: string where
  "emoji_warning = [CHR 0xE2, CHR 0x9A, CHR 0xA0, CHR 0xEF, CHR 0xB8, CHR 0x8F]"

definition emoji_check :: string where
  "emoji_check = [CHR 0xE2, CHR 0x9C, CHR 0x85]"

definition emoji_cross :: string where
  "emoji_cross = [CHR 0xE2, CHR 0x9D, CHR 0x8C]"

definition emoji_robot :: string where
  "emoji_robot = [CHR 0xF0, CHR 0x9F, CHR 0xA4, CHR 0x96]"

definition emoji_chart :: string where
  "emoji_chart = [CHR 0xF0, CHR 0x9F, CHR 0x93, CHR 0x8A]"

definition emoji_clipboard :: string where
  "emoji_clipboard = [CHR 0xF0, CHR 0x9F, CHR 0x93, CHR 0x8B]"

definition nl :: string where
  "nl = [CHR 0x0A]"

text \<open>A thrown value: its constructor and its \<^verbatim>\<open>message\<close>.\<close>

datatype js_error = Error string | TypeError string | SyntaxError string

fun message :: "js_error \<Rightarrow> string" where
  "message (Error m) = m"
| "message (TypeError m) = m"
| "message (SyntaxError m) = m"

section \<open>Tabs: \<^verbatim>\<open>openTab\<close>\<close>

text \<open>
  The document is the list of its elements in document order; an element is addressed by
  its position. \<^verbatim>\<open>evt.currentTarget\<close> is \<open>Some t\<close> for the element at position \<open>t\<close>
  (an element outside the document when \<open>t\<close> is past the end) and \<open>None\<close> for
  \<^verbatim>\<open>null\<close>.
\<close>

record element =
  ident :: "string option"
  classList :: "string list"

type_synonym document = "element list"

definition has_class :: "string \<Rightarrow> element \<Rightarrow> bool" where
  "has_class c e = (c \<in> set (classList e))"

definition getElementsByClassName :: "document \<Rightarrow> string \<Rightarrow> nat list" where
  "getElementsByClassName doc c = filter (\<lambda>i. has_class c (doc ! i)) [0..<length doc]"

definition getElementById :: "document \<Rightarrow> string \<Rightarrow> nat option" where
  "getElementById doc name = List.find (\<lambda>i. ident (doc ! i) = Some name) [0..<length doc]"

definition classList_remove :: "string \<Rightarrow> element \<Rightarrow> element" where
  "classList_remove tok e = e\<lparr>classList := removeAll tok (classList e)\<rparr>"

definition classList_add :: "string \<Rightarrow> element \<Rightarrow> element" where
  "classList_add tok e =
     e\<lparr>classList := (if tok \<in> set (classList e) then classList e else classList e @ [tok])\<rparr>"

text \<open>
  \<^verbatim>\<open>for (let i = 0; i < coll.length; i++) coll[i].classList.remove("active")\<close>, the
  collection given by the positions of its elements. Removing \<^verbatim>\<open>active\<close> leaves the
  membership of the live collection as it is.
\<close>

definition remove_active :: "nat list \<Rightarrow> document \<Rightarrow> document" where
  "remove_active coll doc = fold (\<lambda>i d. d[i := classList_remove ''active'' (d ! i)]) coll doc"

definition add_active :: "nat \<Rightarrow> document \<Rightarrow> document" where
  "add_active i doc = doc[i := classList_add ''active'' (doc ! i)]"

datatype level = ConsoleLog | ConsoleWarn | ConsoleError

record tab_outcome =
  page :: document
  console :: "(level \<times> string list) list"
  thrown :: "js_error option"

definition null_target :: js_error where
  "null_target = TypeError ''Cannot read properties of null (reading 'classList')''"

text \<open>\<^verbatim>\<open>openTab(evt, tabName)\<close> of \<^verbatim>\<open>static/script.js\<close>.\<close>

definition openTab :: "nat option \<Rightarrow> string \<Rightarrow> document \<Rightarrow> tab_outcome" where
  "openTab currentTarget tabName doc =
     (let tabContents = getElementsByClassName doc ''tab-content'';
          tabBtns = getElementsByClassName doc ''tab-btn'';
          d1 = remove_active tabContents doc;
          d2 = remove_active tabBtns d1;
          clicked = (ConsoleLog, [''Tab clicked:'', tabName])
      in case getElementById d2 tabName of
           Some targetTab \<Rightarrow>
             (let d3 = add_active targetTab d2
              in case currentTarget of
                   None \<Rightarrow> \<lparr>page = d3, console = [clicked], thrown = Some null_target\<rparr>
                 | Some t \<Rightarrow>
                     \<lparr>page = add_active t d3,
                      console = [clicked,
                        (ConsoleLog, [emoji_check @ '' Tab switched to:'', tabName])],
                      thrown = None\<rparr>)
         | None \<Rightarrow>
             \<lparr>page = d2,
              console = [clicked, (ConsoleError, [emoji_cross @ '' Tab not found:'', tabName])],
              thrown = None\<rparr>)"

text \<open>
  \<^verbatim>\<open>openTab(evt, tabName)\<close> of \<^verbatim>\<open>templates/script.js\<close>: no log and no test of the
  element found, so an id that no element has makes the property read throw.
\<close>

definition openTab_templates :: "nat option \<Rightarrow> string \<Rightarrow> document \<Rightarrow> tab_outcome" where
  "openTab_templates currentTarget tabName doc =
     (let tabContents = getElementsByClassName doc ''tab-content'';
          tabBtns = getElementsByClassName doc ''tab-btn'';
          d1 = remove_active tabContents doc;
          d2 = remove_active tabBtns d1
      in case getElementById d2 tabName of
           None \<Rightarrow> \<lparr>page = d2, console = [], thrown = Some null_target\<rparr>
         | Some targetTab \<Rightarrow>
             (let d3 = add_active targetTab d2
              in case currentTarget of
                   None \<Rightarrow> \<lparr>page = d3, console = [], thrown = Some null_target\<rparr>
                 | Some t \<Rightarrow> \<lparr>page = add_active t d3, console = [], thrown = None\<rparr>))"

text \<open>The positions of the tab contents that carry \<^verbatim>\<open>active\<close>, and of the tab buttons.\<close>

definition active_tabs :: "document \<Rightarrow> nat set" where
  "active_tabs doc =
     set (filter (\<lambda>i. has_class ''tab-content'' (doc ! i) \<and> has_class ''active'' (doc ! i))
       [0..<length doc])"

definition active_btns :: "document \<Rightarrow> nat set" where
  "active_btns doc =
     set (filter (\<lambda>i. has_class ''tab-btn'' (doc ! i) \<and> has_class ''active'' (doc ! i))
       [0..<length doc])"

text \<open>What both loops together leave of an element.\<close>

definition deactivated :: "element \<Rightarrow> element" where
  "deactivated e =
     (if has_class ''tab-content'' e \<or> has_class ''tab-btn'' e
      then classList_remove ''active'' e else e)"

definition switched :: "nat \<Rightarrow> nat \<Rightarrow> document \<Rightarrow> document" where
  "switched t k doc = add_active t (add_active k (map deactivated doc))"

text \<open>Successive calls with one tab id, from the elements at the positions \<open>ts\<close>.\<close>

definition openTab_calls ::
  "(nat option \<Rightarrow> string \<Rightarrow> document \<Rightarrow> tab_outcome) \<Rightarrow> nat list \<Rightarrow> string \<Rightarrow> document
     \<Rightarrow> document" where
  "openTab_calls f ts name doc = foldl (\<lambda>d t. page (f (Some t) name d)) doc ts"

definition same_tabs :: "document \<Rightarrow> document \<Rightarrow> bool" where
  "same_tabs doc d =
     (length d = length doc \<and>
      (\<forall>i < length doc.
         has_class ''tab-content'' (d ! i) = has_class ''tab-content'' (doc ! i) \<and>
         ident (d ! i) = ident (doc ! i)))"

text \<open>A page of two tabs and their two buttons, the first tab shown.\<close>

definition tabs_example :: document where
  "tabs_example =
     [\<lparr>ident = Some ''manual'', classList = [''tab-content'', ''active'']\<rparr>,
      \<lparr>ident = Some ''csv'', classList = [''tab-content'']\<rparr>,
      \<lparr>ident = None, classList = [''tab-btn'', ''active'']\<rparr>,
      \<lparr>ident = None, classList = [''tab-btn'']\<rparr>]"

section \<open>Requests, responses and parsed bodies\<close>

text \<open>
  \<open>body_text\<close> is what \<^verbatim>\<open>response.text()\<close> settles to: the body, or the error it rejects
  with. \<^verbatim>\<open>fetch\<close> is a function from the request to the response or to the error it
  rejects with, and \<^verbatim>\<open>JSON.parse\<close> a function that gives \<open>None\<close> where it throws.
\<close>

record response =
  ok :: bool
  status :: nat
  statusText :: string
  body_text :: "js_error + string"

text \<open>
  A parsed body. The fields of an object have the types of the service's contract, each
  of them optional (absent or \<^verbatim>\<open>null\<close> is \<open>None\<close>); of an array at the top only the kind
  is kept, its elements are never read.
\<close>

datatype 'a parsed = JNull | JBool bool | JNumber rat | JString string | JArray | JObject 'a

record prediction_result =
  prediction :: "string option"
  confidence :: "rat option"

text \<open>
  The \<^verbatim>\<open>predictions\<close> field as the handler tests it: absent, a value that is no array
  (with its truthiness), or an array of results.
\<close>

datatype predictions_field =
  PredictionsMissing | PredictionsOther bool | PredictionsArray "prediction_result list"

record batch_result =
  predictions :: predictions_field
  total_samples :: "nat option"
  original_columns :: "nat option"
  columns_used :: "string list option"
  benign_count :: "nat option"
  malignant_count :: "nat option"

text \<open>What \<^verbatim>\<open>formData.get('file')\<close> returns: \<^verbatim>\<open>null\<close>, a string or a \<^verbatim>\<open>File\<close>.\<close>

record file_blob =
  file_name :: string
  file_size :: nat

datatype entry_value = NoEntry | TextEntry string | FileEntry file_blob

type_synonym form_data = "(string \<times> string) list"

datatype payload = Json form_data | Multipart entry_value

record request =
  url :: string
  http_method :: string
  headers :: "(string \<times> string) list"
  payload :: payload

text \<open>
  What a submit handler leaves behind: the successive values assigned to the
  \<^verbatim>\<open>innerHTML\<close> of its result region, the \<^verbatim>\<open>setTimeout\<close> callbacks it registered (the
  delay, and the text the callback assigns or the error it throws), the requests it
  issued, and the exception that escaped it.
\<close>

record outcome =
  writes :: "string list"
  timers :: "(nat \<times> (js_error + string)) list"
  requests :: "request list"
  uncaught :: "js_error option"

text \<open>\<^verbatim>\<open>safeJsonResponse(response)\<close>.\<close>

definition safeJsonResponse :: "(string \<Rightarrow> 'a option) \<Rightarrow> response \<Rightarrow> js_error + 'a" where
  "safeJsonResponse JSON_parse response =
     (case body_text response of
        Inl e \<Rightarrow> Inl e
      | Inr txt \<Rightarrow>
          if txt = [] then Inl (Error ''Server returned empty response'')
          else (case JSON_parse txt of
                  Some v \<Rightarrow> Inr v
                | None \<Rightarrow> Inl (Error (''Invalid JSON response: '' @ take 100 txt @ ''...''))))"

text \<open>\<^verbatim>\<open>response.json()\<close>, used by \<^verbatim>\<open>templates/script.js\<close>.\<close>

definition response_json :: "(string \<Rightarrow> 'a option) \<Rightarrow> response \<Rightarrow> js_error + 'a" where
  "response_json JSON_parse response =
     (case body_text response of
        Inl e \<Rightarrow> Inl e
      | Inr txt \<Rightarrow>
          (case JSON_parse txt of
             Some v \<Rightarrow> Inr v
           | None \<Rightarrow> Inl (SyntaxError ''Unexpected token'')))"

definition server_error_html :: "response \<Rightarrow> string \<Rightarrow> string" where
  \<open>server_error_html response errorText =
     ''<div class="error">'' @ emoji_cross @ '' Server Error ('' @ show_nat (status response) @
     ''): '' @ (if errorText \<noteq> [] then errorText else statusText response) @ ''</div>''\<close>

definition connection_error_html :: "js_error \<Rightarrow> string" where
  \<open>connection_error_html error =
     ''<div class="error">'' @ emoji_cross @ '' Connection error: '' @ message error @ ''</div>''\<close>

definition format_error_html :: string where
  \<open>format_error_html =
     ''<div class="error">'' @ emoji_cross @ '' Unexpected response format</div>''\<close>

definition no_file_html :: string where
  \<open>no_file_html = ''<div class="error">'' @ emoji_cross @ '' No file selected</div>''\<close>

definition loading_manual :: string where
  \<open>loading_manual =
     ''<div class="loading"></div>'' @ emoji_robot @ '' Analyzing with trained ML model...''\<close>

definition loading_csv :: string where
  \<open>loading_csv =
     ''<div class="loading"></div>'' @ emoji_robot @ '' Processing CSV with trained ML model...''\<close>

definition loading_templates :: string where
  \<open>loading_templates = ''<div class="loading"></div>Analyzing data...''\<close>

text \<open>
  The errors of the engine itself, in the wording of V8; no theorem depends on the
  wording.
\<close>

definition null_result :: "string \<Rightarrow> js_error" where
  "null_result field =
     TypeError (''Cannot read properties of null (reading '' @ [CHR 0x27] @ field @ [CHR 0x27] @ '')'')"

definition undefined_receiver :: "string \<Rightarrow> js_error" where
  "undefined_receiver field =
     TypeError (''Cannot read properties of undefined (reading '' @ [CHR 0x27] @ field @ [CHR 0x27] @ '')'')"

definition not_a_function :: "string \<Rightarrow> js_error" where
  "not_a_function callee = TypeError (callee @ '' is not a function'')"

definition missing_region :: js_error where
  "missing_region =
     TypeError (''Cannot set properties of null (setting '' @ [CHR 0x27] @ ''innerHTML'' @ [CHR 0x27] @ '')'')"

section \<open>Rendering\<close>

text \<open>
  The three constants every renderer derives from the label:
  \<^verbatim>\<open>prediction.toLowerCase() === 'malignant' ? 'malignant' : 'benign'\<close> and the two
  choices made from it.
\<close>

definition className :: "string \<Rightarrow> string" where
  "className label =
     (if toLowerCase label = ''malignant'' then ''malignant'' else ''benign'')"

definition emoji :: "string \<Rightarrow> string" where
  "emoji cls = (if cls = ''malignant'' then emoji_warning else emoji_check)"

definition advice :: "string \<Rightarrow> string" where
  "advice cls =
     (if cls = ''malignant'' then ''Please consult with a healthcare professional immediately''
      else ''The tumor appears to be non-cancerous'')"

text \<open>
  \<^verbatim>\<open>x || d\<close> on an optional number: absent, \<^verbatim>\<open>null\<close> and \<open>0\<close> are falsy, and a
  literal of the body so small that its binary64 is \<open>0\<close> is falsy too.
\<close>

definition or_default :: "rat option \<Rightarrow> rat \<Rightarrow> rat" where
  "or_default x d = (case x of None \<Rightarrow> d | Some c \<Rightarrow> if double c \<noteq> 0 then c else d)"

text \<open>The template literal of \<^verbatim>\<open>displayResult\<close> in \<^verbatim>\<open>static/script.js\<close>.\<close>

definition result_html ::
  "(string \<Rightarrow> string) \<Rightarrow> string \<Rightarrow> string \<Rightarrow> string \<Rightarrow> string" where
  \<open>result_html upper cls label percent =
     nl @ ''    <div class="result '' @ cls @ ''">'' @
     nl @ ''      <h3>'' @ emoji cls @ '' ML Model Prediction</h3>'' @
     nl @ ''      <p><strong>'' @ toUpperCase upper label @ ''</strong></p>'' @
     nl @ ''      <p>Confidence: '' @ percent @ ''%</p>'' @
     nl @ ''      <small>'' @ emoji_robot @ '' '' @ advice cls @ ''</small>'' @
     nl @ ''    </div>'' @
     nl @ ''  ''\<close>

text \<open>
  \<^verbatim>\<open>displayResult(result, container)\<close> of \<^verbatim>\<open>static/script.js\<close>: the text assigned to
  the container, or the error thrown before the assignment.
\<close>

definition displayResult ::
  "(string \<Rightarrow> string) \<Rightarrow> prediction_result parsed \<Rightarrow> js_error + string" where
  "displayResult upper result =
     (case result of
        JNull \<Rightarrow> Inl (null_result ''prediction'')
      | JObject r \<Rightarrow>
          (case prediction r of
             None \<Rightarrow> Inl (undefined_receiver ''toLowerCase'')
           | Some label \<Rightarrow>
               Inr (result_html upper (className label) label
                      (toFixed1 (fmul (or_default (confidence r) (85 / 100)) 100))))
      | _ \<Rightarrow> Inl (undefined_receiver ''toLowerCase''))"

text \<open>The template literal of \<^verbatim>\<open>displayResult\<close> in \<^verbatim>\<open>templates/script.js\<close>.\<close>

definition result_html_templates ::
  "(string \<Rightarrow> string) \<Rightarrow> string \<Rightarrow> string \<Rightarrow> string \<Rightarrow> string" where
  \<open>result_html_templates upper cls label percent =
     nl @ ''    <div class="result '' @ cls @ ''">'' @
     nl @ ''      '' @ emoji cls @ '' Prediction: <strong>'' @ toUpperCase upper label @
       ''</strong>'' @
     nl @ ''      <br>'' @
     nl @ ''      <small>Confidence: '' @ percent @ ''%</small>'' @
     nl @ ''    </div>'' @
     nl @ ''  ''\<close>

text \<open>
  \<^verbatim>\<open>displayResult\<close> of \<^verbatim>\<open>templates/script.js\<close>; \<open>rnd\<close> is what \<^verbatim>\<open>Math.random()\<close>
  returns. \<^verbatim>\<open>result.prediction || result\<close> makes a string body its own label, and
  leaves any other value without a \<^verbatim>\<open>toLowerCase\<close> method.
\<close>

definition displayResult_templates ::
  "(string \<Rightarrow> string) \<Rightarrow> rat \<Rightarrow> prediction_result parsed \<Rightarrow> js_error + string" where
  "displayResult_templates upper rnd result =
     (case result of
        JNull \<Rightarrow> Inl (null_result ''prediction'')
      | JString s \<Rightarrow>
          Inr (result_html_templates upper (className s) s
                 (toFixed1 (fmul (fadd (fmul rnd (3 / 10)) (7 / 10)) 100)))
      | JObject r \<Rightarrow>
          (case prediction r of
             Some label \<Rightarrow>
               if label \<noteq> [] then
                 Inr (result_html_templates upper (className label) label
                        (toFixed1
                           (fmul (or_default (confidence r) (fadd (fmul rnd (3 / 10)) (7 / 10)))
                              100)))
               else Inl (not_a_function ''prediction.toLowerCase'')
           | None \<Rightarrow> Inl (not_a_function ''prediction.toLowerCase''))
      | _ \<Rightarrow> Inl (not_a_function ''prediction.toLowerCase''))"

text \<open>
  \<^verbatim>\<open>simulatePrediction(data, container)\<close>: one timer of 1500 ms. \<open>parseFloat\<close> gives \<open>None\<close>
  for \<^verbatim>\<open>NaN\<close>, which is what it returns for a field the form does not have, and every
  comparison with \<^verbatim>\<open>NaN\<close> is false.
\<close>

definition field_above :: "(string \<Rightarrow> rat option) \<Rightarrow> form_data \<Rightarrow> string \<Rightarrow> rat \<Rightarrow> nat" where
  "field_above parseFloat data name bound =
     (case map_of (rev data) name of
        None \<Rightarrow> 0
      | Some txt \<Rightarrow>
          (case parseFloat txt of
             None \<Rightarrow> 0
           | Some v \<Rightarrow> if double v > double bound then 1 else 0))"

definition simulatePrediction ::
  "(string \<Rightarrow> string) \<Rightarrow> (string \<Rightarrow> rat option) \<Rightarrow> rat \<Rightarrow> form_data
     \<Rightarrow> nat \<times> (js_error + string)" where
  "simulatePrediction upper parseFloat rnd data =
     (let score = field_above parseFloat data ''radius_mean'' 15 +
                  field_above parseFloat data ''area_mean'' 800 +
                  field_above parseFloat data ''concavity_mean'' (1 / 10);
          label = (if score \<ge> 2 then ''Malignant'' else ''Benign'');
          conf = fadd (fmul rnd (2 / 10)) (75 / 100)
      in (1500, displayResult_templates upper rnd
                  (JObject \<lparr>prediction = Some label, confidence = Some conf\<rparr>)))"

subsection \<open>The batch table\<close>

definition csv_row :: "nat \<Rightarrow> string \<Rightarrow> rat option \<Rightarrow> string" where
  \<open>csv_row index label conf =
     nl @ ''      <tr>'' @
     nl @ ''        <td>'' @ show_nat (index + 1) @ ''</td>'' @
     nl @ ''        <td class="'' @ className label @ ''"><strong>'' @ label @ ''</strong></td>'' @
     nl @ ''        <td>'' @
       (case conf of
          None \<Rightarrow> ''N/A''
        | Some c \<Rightarrow> if double c \<noteq> 0 then toFixed1 (fmul c 100) @ ''%'' else ''N/A'') @
       ''</td>'' @
     nl @ ''      </tr>'' @
     nl @ ''    ''\<close>

text \<open>
  \<^verbatim>\<open>results.forEach((pred, index) => ...)\<close>: a row without a label throws at
  \<^verbatim>\<open>pred.prediction.toLowerCase()\<close>.
\<close>

fun csv_rows :: "nat \<Rightarrow> prediction_result list \<Rightarrow> js_error + string" where
  "csv_rows index [] = Inr []"
| "csv_rows index (pred # rest) =
     (case prediction pred of
        None \<Rightarrow> Inl (undefined_receiver ''toLowerCase'')
      | Some label \<Rightarrow>
          (case csv_rows (index + 1) rest of
             Inl e \<Rightarrow> Inl e
           | Inr html \<Rightarrow> Inr (csv_row index label (confidence pred) @ html)))"

text \<open>
  \<^verbatim>\<open>results.filter(r => r.prediction.toLowerCase() === w).length\<close>; it runs after
  \<^verbatim>\<open>forEach\<close>, so every row has its label by then.
\<close>

definition count_label :: "string \<Rightarrow> prediction_result list \<Rightarrow> nat" where
  "count_label w results =
     length (filter (\<lambda>r. map_option toLowerCase (prediction r) = Some w) results)"

text \<open>\<^verbatim>\<open>result.benign_count || ...\<close> and \<^verbatim>\<open>result.malignant_count || ...\<close>.\<close>

definition or_count :: "nat option \<Rightarrow> nat \<Rightarrow> nat" where
  "or_count x d = (case x of None \<Rightarrow> d | Some c \<Rightarrow> if c \<noteq> 0 then c else d)"

definition benignCount :: "batch_result \<Rightarrow> prediction_result list \<Rightarrow> nat" where
  "benignCount result results = or_count (benign_count result) (count_label ''benign'' results)"

definition malignantCount :: "batch_result \<Rightarrow> prediction_result list \<Rightarrow> nat" where
  "malignantCount result results =
     or_count (malignant_count result) (count_label ''malignant'' results)"

text \<open>
  \<^verbatim>\<open>((count / results.length) * 100).toFixed(1)\<close>; a division by the length \<open>0\<close> gives
  \<^verbatim>\<open>NaN\<close> or \<^verbatim>\<open>Infinity\<close>, which \<open>toFixed\<close> prints by name.
\<close>

definition percent_of :: "nat \<Rightarrow> nat \<Rightarrow> string" where
  "percent_of count len =
     (if len = 0 then (if count = 0 then ''NaN'' else ''Infinity'')
      else toFixed1 (fmul (fdiv (of_nat count) (of_nat len)) 100))"

definition summary_html :: "nat \<Rightarrow> nat \<Rightarrow> nat \<Rightarrow> string" where
  \<open>summary_html benign malignant len =
     nl @ ''    <div class="summary">'' @
     nl @ ''      <h4>'' @ emoji_chart @ '' ML Model Summary</h4>'' @
     nl @ ''      <p>'' @ emoji_check @ '' Benign: '' @ show_nat benign @ '' samples ('' @
       percent_of benign len @ ''%)</p>'' @
     nl @ ''      <p>'' @ emoji_warning @ '' Malignant: '' @ show_nat malignant @ '' samples ('' @
       percent_of malignant len @ ''%)</p>'' @
     nl @ ''      <small>'' @ emoji_robot @ '' Predictions made using your trained model.pkl</small>'' @
     nl @ ''    </div>'' @
     nl @ ''  ''\<close>

definition column_info_html :: "batch_result \<Rightarrow> string" where
  \<open>column_info_html result =
     (case original_columns result of
        None \<Rightarrow> []
      | Some n \<Rightarrow>
          if n = 0 then []
          else (case columns_used result of
                  None \<Rightarrow> []
                | Some cols \<Rightarrow>
                    ''<div class="column-info">'' @
                    nl @ ''      <small>'' @ emoji_clipboard @ '' Original CSV had '' @ show_nat n @
                      '' columns, used '' @ show_nat (length cols) @
                      '' required columns for prediction</small>'' @
                    nl @ ''    </div>''))\<close>

definition csv_head_html :: "nat \<Rightarrow> string" where
  \<open>csv_head_html len =
     ''<div class="csv-results">'' @
     ''<h3>'' @ emoji_robot @ '' Trained ML Model Results</h3>'' @
     ''<p>Processed '' @ show_nat len @ '' samples using your trained model.pkl</p>''\<close>

definition table_head_html :: string where
  \<open>table_head_html =
     ''<table><thead><tr><th>Sample #</th><th>Prediction</th><th>Confidence</th></tr></thead><tbody>''\<close>

text \<open>
  \<^verbatim>\<open>displayCSVResults(result, container)\<close> of \<^verbatim>\<open>static/script.js\<close>. Without an array
  under \<^verbatim>\<open>predictions\<close> it throws before it writes anything.
\<close>

definition displayCSVResults :: "batch_result \<Rightarrow> js_error + string" where
  "displayCSVResults result =
     (case predictions result of
        PredictionsMissing \<Rightarrow> Inl (undefined_receiver ''length'')
      | PredictionsOther _ \<Rightarrow> Inl (not_a_function ''results.forEach'')
      | PredictionsArray results \<Rightarrow>
          (case csv_rows 0 results of
             Inl e \<Rightarrow> Inl e
           | Inr rows \<Rightarrow>
               Inr (csv_head_html (length results) @ column_info_html result @
                    table_head_html @ rows @ ''</tbody></table>'' @
                    summary_html (benignCount result results) (malignantCount result results)
                      (length results) @
                    ''</div>'')))"

section \<open>The submit handlers\<close>

text \<open>
  Each handler takes \<open>resultDiv\<close>, whether the page has the result region the handler
  looks up first: without it the first assignment throws, before any request.
\<close>

definition no_region :: outcome where
  "no_region = \<lparr>writes = [], timers = [], requests = [], uncaught = Some missing_region\<rparr>"

definition manual_request :: "form_data \<Rightarrow> request" where
  "manual_request data =
     \<lparr>url = ''/predict'', http_method = ''POST'',
      headers = [(''Content-Type'', ''application/json'')], payload = Json data\<rparr>"

definition csv_request :: "entry_value \<Rightarrow> request" where
  "csv_request file =
     \<lparr>url = ''/predict_csv'', http_method = ''POST'', headers = [], payload = Multipart file\<rparr>"

text \<open>The submit handler of \<^verbatim>\<open>cancerForm\<close> in \<^verbatim>\<open>static/script.js\<close>.\<close>

definition submit_manual ::
  "(string \<Rightarrow> string) \<Rightarrow> (string \<Rightarrow> prediction_result parsed option)
     \<Rightarrow> (request \<Rightarrow> js_error + response) \<Rightarrow> bool \<Rightarrow> form_data \<Rightarrow> outcome" where
  "submit_manual upper JSON_parse fetch resultDiv data =
     (if \<not> resultDiv then no_region
      else
        \<lparr>writes = [loading_manual,
           (case fetch (manual_request data) of
              Inl error \<Rightarrow> connection_error_html error
            | Inr response \<Rightarrow>
                if \<not> ok response then
                  (case body_text response of
                     Inl error \<Rightarrow> connection_error_html error
                   | Inr errorText \<Rightarrow> server_error_html response errorText)
                else
                  (case safeJsonResponse JSON_parse response of
                     Inl error \<Rightarrow> connection_error_html error
                   | Inr result \<Rightarrow>
                       (case displayResult upper result of
                          Inl error \<Rightarrow> connection_error_html error
                        | Inr html \<Rightarrow> html)))],
         timers = [], requests = [manual_request data], uncaught = None\<rparr>)"

text \<open>
  The submit handler of \<^verbatim>\<open>cancerForm\<close> in \<^verbatim>\<open>templates/script.js\<close>: every failure inside
  \<^verbatim>\<open>try\<close> ends in \<^verbatim>\<open>simulatePrediction\<close>.
\<close>

definition submit_manual_templates ::
  "(string \<Rightarrow> string) \<Rightarrow> (string \<Rightarrow> prediction_result parsed option)
     \<Rightarrow> (string \<Rightarrow> rat option) \<Rightarrow> rat \<Rightarrow> (request \<Rightarrow> js_error + response) \<Rightarrow> bool
     \<Rightarrow> form_data \<Rightarrow> outcome" where
  "submit_manual_templates upper JSON_parse parseFloat rnd fetch resultDiv data =
     (if \<not> resultDiv then no_region
      else
        (let simulated =
               \<lparr>writes = [loading_templates],
                timers = [simulatePrediction upper parseFloat rnd data],
                requests = [manual_request data], uncaught = None\<rparr>
         in case fetch (manual_request data) of
              Inl error \<Rightarrow> simulated
            | Inr response \<Rightarrow>
                if ok response then
                  (case response_json JSON_parse response of
                     Inl error \<Rightarrow> simulated
                   | Inr result \<Rightarrow>
                       (case displayResult_templates upper rnd result of
                          Inl error \<Rightarrow> simulated
                        | Inr html \<Rightarrow>
                            \<lparr>writes = [loading_templates, html], timers = [],
                             requests = [manual_request data], uncaught = None\<rparr>))
                else simulated))"

text \<open>\<^verbatim>\<open>!file\<close>: \<^verbatim>\<open>null\<close> and the empty string are falsy, every object is truthy.\<close>

fun truthy_entry :: "entry_value \<Rightarrow> bool" where
  "truthy_entry NoEntry = False"
| "truthy_entry (TextEntry s) = (s \<noteq> [])"
| "truthy_entry (FileEntry f) = True"

fun truthy_field :: "predictions_field \<Rightarrow> bool" where
  "truthy_field PredictionsMissing = False"
| "truthy_field (PredictionsOther b) = b"
| "truthy_field (PredictionsArray ps) = True"

fun isArray :: "predictions_field \<Rightarrow> bool" where
  "isArray (PredictionsArray ps) = True"
| "isArray _ = False"

text \<open>
  The handler of \<^verbatim>\<open>csvForm\<close> from the parsed body on: the read of
  \<^verbatim>\<open>result.total_samples\<close> for the log, then the test of \<^verbatim>\<open>result.predictions\<close>. A
  boolean, a number, a string and an array have no such property.
\<close>

definition csv_parsed :: "batch_result parsed \<Rightarrow> js_error + string" where
  "csv_parsed result =
     (case result of
        JNull \<Rightarrow> Inl (null_result ''total_samples'')
      | JObject r \<Rightarrow>
          if truthy_field (predictions r) \<and> isArray (predictions r) then displayCSVResults r
          else Inr format_error_html
      | _ \<Rightarrow> Inr format_error_html)"

text \<open>The submit handler of \<^verbatim>\<open>csvForm\<close> in \<^verbatim>\<open>static/script.js\<close>.\<close>

definition submit_csv ::
  "(string \<Rightarrow> batch_result parsed option) \<Rightarrow> (request \<Rightarrow> js_error + response) \<Rightarrow> bool
     \<Rightarrow> entry_value \<Rightarrow> outcome" where
  "submit_csv JSON_parse fetch resultDiv file =
     (if \<not> resultDiv then no_region
      else if \<not> truthy_entry file then
        \<lparr>writes = [loading_csv, no_file_html], timers = [], requests = [], uncaught = None\<rparr>
      else
        \<lparr>writes = [loading_csv,
           (case fetch (csv_request file) of
              Inl error \<Rightarrow> connection_error_html error
            | Inr response \<Rightarrow>
                if \<not> ok response then
                  (case body_text response of
                     Inl error \<Rightarrow> connection_error_html error
                   | Inr errorText \<Rightarrow> server_error_html response errorText)
                else
                  (case safeJsonResponse JSON_parse response of
                     Inl error \<Rightarrow> connection_error_html error
                   | Inr result \<Rightarrow>
                       (case csv_parsed result of
                          Inl error \<Rightarrow> connection_error_html error
                        | Inr html \<Rightarrow> html)))],
         timers = [], requests = [csv_request file], uncaught = None\<rparr>)"

text \<open>The array under \<^verbatim>\<open>predictions\<close> of a parsed body, when it has one.\<close>

definition predictions_of :: "batch_result parsed \<Rightarrow> prediction_result list option" where
  "predictions_of result =
     (case result of
        JObject r \<Rightarrow> (case predictions r of PredictionsArray ps \<Rightarrow> Some ps | _ \<Rightarrow> None)
      | _ \<Rightarrow> None)"

subsection \<open>Responses and parsers used as examples\<close>

definition failed_500 :: response where
  "failed_500 =
     \<lparr>ok = False, status = 500, statusText = ''Internal Server Error'', body_text = Inr ''boom''\<rparr>"

definition ok_with :: "string \<Rightarrow> response" where
  "ok_with txt = \<lparr>ok = True, status = 200, statusText = ''OK'', body_text = Inr txt\<rparr>"

text \<open>A parser that knows one body, \<^verbatim>\<open>null\<close>, and rejects every other text.\<close>

definition parse_null :: "string \<Rightarrow> 'a parsed option" where
  "parse_null txt = (if txt = ''null'' then Some JNull else None)"

definition five_results :: "prediction_result list" where
  "five_results =
     [\<lparr>prediction = Some ''Benign'', confidence = Some (89 / 100)\<rparr>,
      \<lparr>prediction = Some ''Malignant'', confidence = Some (76 / 100)\<rparr>,
      \<lparr>prediction = Some ''benign'', confidence = None\<rparr>,
      \<lparr>prediction = Some ''BENIGN'', confidence = Some (84 / 100)\<rparr>,
      \<lparr>prediction = Some ''MALIGNANT'', confidence = Some (78 / 100)\<rparr>]"

definition batch_of :: "prediction_result list \<Rightarrow> nat option \<Rightarrow> nat option \<Rightarrow> batch_result" where
  "batch_of results b m =
     \<lparr>predictions = PredictionsArray results, total_samples = None, original_columns = None,
      columns_used = None, benign_count = b, malignant_count = m\<rparr>"

definition empty_file :: entry_value where
  "empty_file = FileEntry \<lparr>file_name = [], file_size = 0\<rparr>"

definition data_file :: entry_value where
  "data_file = FileEntry \<lparr>file_name = ''data.csv'', file_size = 120\<rparr>"

definition one_benign :: "prediction_result list" where
  "one_benign = [\<lparr>prediction = Some ''Benign'', confidence = None\<rparr>]"

definition failed_empty :: response where
  "failed_empty =
     \<lparr>ok = False, status = 500, statusText = ''Internal Server Error'', body_text = Inr []\<rparr>"

definition no_predictions :: batch_result where
  "no_predictions = (batch_of [] None None)\<lparr>predictions := PredictionsMissing\<rparr>"

section \<open>Tabs: what \<^verbatim>\<open>openTab\<close> leaves of the page\<close>

lemma fold_update_nth:
  "distinct js \<Longrightarrow> \<forall>j \<in> set js. j < length d \<Longrightarrow>
   fold (\<lambda>i d. d[i := f (d ! i)]) js d =
   map (\<lambda>i. if i \<in> set js then f (d ! i) else d ! i) [0..<length d]"
proof (induction js arbitrary: d)
  case Nil
  then show ?case by (simp add: map_nth)
next
  case (Cons j js)
  have "fold (\<lambda>i d. d[i := f (d ! i)]) (j # js) d = fold (\<lambda>i d. d[i := f (d ! i)]) js (d[j := f (d ! j)])"
    by simp
  also have "\<dots> = map (\<lambda>i. if i \<in> set js then f (d[j := f (d ! j)] ! i) else d[j := f (d ! j)] ! i) [0..<length d]"
    using Cons.IH [of "d[j := f (d ! j)]"] Cons.prems by simp
  also have "\<dots> = map (\<lambda>i. if i \<in> set (j # js) then f (d ! i) else d ! i) [0..<length d]"
    using Cons.prems by (auto simp: nth_list_update)
  finally show ?case .
qed

lemma remove_active_map:
  assumes "length d = length doc"
  shows "remove_active (getElementsByClassName doc c) d =
     map (\<lambda>i. if has_class c (doc ! i) then classList_remove ''active'' (d ! i) else d ! i)
       [0..<length d]"
  unfolding remove_active_def getElementsByClassName_def
  using assms by (subst fold_update_nth) auto

lemma loops_deactivated:
  "remove_active (getElementsByClassName doc ''tab-btn'')
     (remove_active (getElementsByClassName doc ''tab-content'') doc) = map deactivated doc"
  by (auto simp: remove_active_map deactivated_def classList_remove_def has_class_def intro!: nth_equalityI)

lemma getElementById_deactivated [simp]:
  "getElementById (map deactivated doc) name = getElementById doc name"
  unfolding getElementById_def
  by (rule find_cong) (auto simp: deactivated_def classList_remove_def)

lemma getElementById_SomeD:
  "getElementById doc name = Some k \<Longrightarrow> k < length doc"
  by (auto simp: getElementById_def find_Some_iff)

lemma page_openTab_known:
  "getElementById doc name = Some k \<Longrightarrow>
   page (openTab (Some t) name doc) = add_active t (add_active k (map deactivated doc))"
  by (simp add: openTab_def Let_def loops_deactivated)

lemma page_openTab_templates_known:
  "getElementById doc name = Some k \<Longrightarrow>
   page (openTab_templates (Some t) name doc) = add_active t (add_active k (map deactivated doc))"
  by (simp add: openTab_templates_def Let_def loops_deactivated)

lemma has_class_add [simp]:
  "has_class c (classList_add a e) = (c = a \<or> has_class c e)"
  by (auto simp: has_class_def classList_add_def)

lemma has_class_remove [simp]:
  "has_class c (classList_remove a e) = (c \<noteq> a \<and> has_class c e)"
  by (auto simp: has_class_def classList_remove_def)

lemma ident_add [simp]: "ident (classList_add a e) = ident e"
  by (simp add: classList_add_def)

lemma ident_remove [simp]: "ident (classList_remove a e) = ident e"
  by (simp add: classList_remove_def)

lemma ident_deactivated [simp]: "ident (deactivated e) = ident e"
  by (simp add: deactivated_def)

lemma has_class_deactivated:
  "has_class c (deactivated e) =
     (has_class c e \<and> (c = ''active'' \<longrightarrow> \<not> has_class ''tab-content'' e \<and> \<not> has_class ''tab-btn'' e))"
  by (auto simp: deactivated_def)

lemma add_add [simp]: "classList_add a (classList_add a e) = classList_add a e"
  by (simp add: classList_add_def)

lemma remove_add_remove [simp]:
  "classList_remove a (classList_add a (classList_remove a e)) = classList_remove a e"
  by (simp add: classList_add_def classList_remove_def)

lemma reactivated_twice:
  "classList_add ''active'' (deactivated (classList_add ''active'' (deactivated e))) =
   classList_add ''active'' (deactivated e)"
  by (simp add: deactivated_def)

lemma deactivated_twice [simp]: "deactivated (deactivated e) = deactivated e"
  by (simp add: deactivated_def classList_remove_def)

lemma nth_switched:
  "i < length doc \<Longrightarrow>
   switched t k doc ! i =
     (if i = t \<or> i = k then classList_add ''active'' (deactivated (doc ! i))
      else deactivated (doc ! i))"
  by (simp add: switched_def add_active_def nth_list_update)

lemma length_switched [simp]: "length (switched t k doc) = length doc"
  by (simp add: switched_def add_active_def)

lemma getElementById_switched [simp]:
  "getElementById (switched t k doc) name = getElementById doc name"
  unfolding getElementById_def by (rule find_cong) (auto simp: nth_switched)

lemma active_switched:
  assumes "k < length doc" "has_class ''tab-content'' (doc ! k)"
    "t < length doc" "\<not> has_class ''tab-content'' (doc ! t)"
  shows "active_tabs (switched t k doc) = {k}"
proof -
  have "k \<noteq> t" using assms by auto
  with assms show ?thesis
    unfolding active_tabs_def
    by (auto simp: nth_switched has_class_deactivated split: if_splits)
qed

lemma switched_twice:
  "switched t k (switched t k doc) = switched t k doc"
  by (rule nth_equalityI) (simp_all add: nth_switched reactivated_twice)

lemma same_tabs_refl: "same_tabs doc doc"
  by (simp add: same_tabs_def)

lemma same_tabs_switched: "same_tabs doc d \<Longrightarrow> same_tabs doc (switched t k d)"
  by (simp add: same_tabs_def nth_switched has_class_deactivated)

lemma same_tabs_getElementById:
  "same_tabs doc d \<Longrightarrow> getElementById d name = getElementById doc name"
  unfolding getElementById_def same_tabs_def
  by (auto intro!: find_cong)

lemma same_tabs_calls:
  assumes "getElementById doc name = Some k"
    and "f = openTab \<or> f = openTab_templates"
  shows "same_tabs doc (openTab_calls f ts name doc)"
proof (induction ts rule: rev_induct)
  case Nil
  show ?case by (simp add: openTab_calls_def same_tabs_refl)
next
  case (snoc t ts)
  let ?d = "openTab_calls f ts name doc"
  have g: "getElementById ?d name = Some k"
    using snoc assms(1) by (simp add: same_tabs_getElementById)
  have "page (f (Some t) name ?d) = switched t k ?d"
    using assms(2) g by (auto simp: page_openTab_known page_openTab_templates_known switched_def)
  then show ?case
    using snoc by (simp add: openTab_calls_def same_tabs_switched)
qed

lemma active_after_call:
  assumes "getElementById doc name = Some k" "has_class ''tab-content'' (doc ! k)"
    and "t < length doc" "\<not> has_class ''tab-content'' (doc ! t)"
    and "same_tabs doc d" "f = openTab \<or> f = openTab_templates"
  shows "active_tabs (page (f (Some t) name d)) = {k}"
proof -
  have g: "getElementById d name = Some k"
    using assms by (simp add: same_tabs_getElementById)
  have k: "k < length doc" using assms(1) by (rule getElementById_SomeD)
  have p: "page (f (Some t) name d) = switched t k d"
    using assms(6) g by (auto simp: page_openTab_known page_openTab_templates_known switched_def)
  have "k < length d" "has_class ''tab-content'' (d ! k)" "t < length d"
    "\<not> has_class ''tab-content'' (d ! t)"
    using assms k by (auto simp: same_tabs_def)
  then show ?thesis unfolding p by (rule active_switched)
qed

lemma active_after_calls:
  assumes "getElementById doc name = Some k" "has_class ''tab-content'' (doc ! k)"
    and "ts \<noteq> []" "\<forall>t \<in> set ts. t < length doc \<and> \<not> has_class ''tab-content'' (doc ! t)"
    and "f = openTab \<or> f = openTab_templates"
  shows "active_tabs (openTab_calls f ts name doc) = {k}"
proof (cases ts rule: rev_cases)
  case Nil
  with assms(3) show ?thesis by simp
next
  case (snoc us t)
  have "same_tabs doc (openTab_calls f us name doc)"
    using assms(1,5) by (rule same_tabs_calls)
  moreover have "t < length doc" "\<not> has_class ''tab-content'' (doc ! t)"
    using assms(4) snoc by auto
  ultimately have "active_tabs (page (f (Some t) name (openTab_calls f us name doc))) = {k}"
    using assms(1,2,5) by (intro active_after_call) auto
  then show ?thesis by (simp add: snoc openTab_calls_def)
qed

text \<open>
  Claim C8. Let \<open>name\<close> be the id of a tab content, found by \<open>getElementById\<close> at
  position \<open>k\<close>, and let every call come from an element of the page that is not itself a
  tab content (a tab button). After one or more calls of \<open>openTab\<close> with that id the tab
  contents that carry \<^verbatim>\<open>active\<close> are exactly the one at \<open>k\<close>; one more call leaves that
  set as it is, and a second call from the same element leaves the whole page as the
  first call left it. The same holds for the function of \<^verbatim>\<open>templates/script.js\<close>.
\<close>

theorem openTab_idempotent:
  assumes "getElementById doc name = Some k" and "has_class ''tab-content'' (doc ! k)"
    and "ts \<noteq> []"
    and "\<forall>t \<in> set ts. t < length doc \<and> \<not> has_class ''tab-content'' (doc ! t)"
    and "t \<in> set ts"
  shows "active_tabs (openTab_calls openTab ts name doc) = {k} \<and>
         active_tabs (openTab_calls openTab (ts @ [t]) name doc) = {k} \<and>
         page (openTab (Some t) name (page (openTab (Some t) name doc))) =
           page (openTab (Some t) name doc) \<and>
         active_tabs (openTab_calls openTab_templates ts name doc) = {k} \<and>
         active_tabs (openTab_calls openTab_templates (ts @ [t]) name doc) = {k} \<and>
         page (openTab_templates (Some t) name (page (openTab_templates (Some t) name doc))) =
           page (openTab_templates (Some t) name doc)"
proof -
  have ts': "ts @ [t] \<noteq> []"
    "\<forall>u \<in> set (ts @ [t]). u < length doc \<and> \<not> has_class ''tab-content'' (doc ! u)"
    using assms(4,5) by auto
  have g: "getElementById (switched t k doc) name = Some k"
    using assms(1) by simp
  have i1: "page (openTab (Some t) name (page (openTab (Some t) name doc))) =
           page (openTab (Some t) name doc)"
    using assms(1) g by (simp add: page_openTab_known switched_def [symmetric] switched_twice)
  have i2: "page (openTab_templates (Some t) name (page (openTab_templates (Some t) name doc))) =
           page (openTab_templates (Some t) name doc)"
    using assms(1) g
    by (simp add: page_openTab_templates_known switched_def [symmetric] switched_twice)
  show ?thesis
    using active_after_calls [OF assms(1,2,3,4)] active_after_calls [OF assms(1,2) ts'] i1 i2
    by simp
qed

theorem openTab_idempotent_witness:
  "active_tabs (openTab_calls openTab [2, 2, 2] ''manual'' tabs_example) = {0} \<and>
   active_tabs (openTab_calls openTab [3, 3] ''csv'' tabs_example) = {1}"
proof -
  have a: "getElementById tabs_example ''manual'' = Some 0" by code_simp
  have b: "has_class ''tab-content'' (tabs_example ! 0)" by code_simp
  have c: "\<forall>t \<in> set [2, 2, 2]. t < length tabs_example \<and> \<not> has_class ''tab-content'' (tabs_example ! t)"
    by code_simp
  have a': "getElementById tabs_example ''csv'' = Some 1" by code_simp
  have b': "has_class ''tab-content'' (tabs_example ! 1)" by code_simp
  have c': "\<forall>t \<in> set [3, 3]. t < length tabs_example \<and> \<not> has_class ''tab-content'' (tabs_example ! t)"
    by code_simp
  show ?thesis
    using openTab_idempotent [OF a b _ c, of 2] openTab_idempotent [OF a' b' _ c', of 3]
    by simp
qed

text \<open>
  Claim C2, as amended. When no element of the document has the id passed to
  \<open>openTab\<close>, the call is not a no-op: both loops have run by then, so every tab content
  and every tab button has lost \<^verbatim>\<open>active\<close> and nothing else has changed. The function of
  \<^verbatim>\<open>static/script.js\<close> then reports the id with \<^verbatim>\<open>console.error\<close> and throws nothing; the
  function of \<^verbatim>\<open>templates/script.js\<close> throws a \<open>TypeError\<close>.
\<close>

theorem openTab_unknown_id:
  assumes "getElementById doc name = None"
  shows "page (openTab cur name doc) = map deactivated doc \<and>
         active_tabs (page (openTab cur name doc)) = {} \<and>
         active_btns (page (openTab cur name doc)) = {} \<and>
         console (openTab cur name doc) =
           [(ConsoleLog, [''Tab clicked:'', name]),
            (ConsoleError, [emoji_cross @ '' Tab not found:'', name])] \<and>
         thrown (openTab cur name doc) = None \<and>
         page (openTab_templates cur name doc) = map deactivated doc \<and>
         thrown (openTab_templates cur name doc) = Some null_target"
proof -
  have p: "page (openTab cur name doc) = map deactivated doc"
    using assms by (simp add: openTab_def Let_def loops_deactivated)
  have "active_tabs (map deactivated doc) = {}" "active_btns (map deactivated doc) = {}"
    by (auto simp: active_tabs_def active_btns_def has_class_deactivated)
  with p show ?thesis
    using assms by (simp add: openTab_def openTab_templates_def Let_def loops_deactivated)
qed

theorem openTab_unknown_id_witness:
  "getElementById tabs_example ''nope'' = None \<and>
   page (openTab (Some 3) ''nope'' tabs_example) = map deactivated tabs_example \<and>
   thrown (openTab_templates (Some 3) ''nope'' tabs_example) = Some null_target"
proof -
  have h: "getElementById tabs_example ''nope'' = None" by code_simp
  show ?thesis using h openTab_unknown_id [OF h, of "Some 3"] by simp
qed

text \<open>
  Claim C2 as it is stated fails on the page \<open>tabs_example\<close>, whose first tab is shown:
  after a call with the unknown id \<^verbatim>\<open>nope\<close> no tab is active, and the console holds an
  entry of level error, none of level warning.
\<close>

theorem openTab_unknown_id_counterexample:
  "getElementById tabs_example ''nope'' = None \<and>
   active_tabs tabs_example = {0} \<and>
   active_tabs (page (openTab (Some 3) ''nope'' tabs_example)) = {} \<and>
   page (openTab (Some 3) ''nope'' tabs_example) \<noteq> tabs_example \<and>
   map fst (console (openTab (Some 3) ''nope'' tabs_example)) = [ConsoleLog, ConsoleError]"
  by code_simp

section \<open>Binary64 rounding\<close>

lemma bit_length_nonneg: "0 \<le> bit_length n"
  by (induction n rule: bit_length.induct) (simp add: bit_length.simps)

lemma bit_length_bounds:
  "0 < n \<Longrightarrow> 2 ^ nat (bit_length n - 1) \<le> n \<and> n < 2 ^ nat (bit_length n)"
proof (induction n rule: bit_length.induct)
  case (1 n)
  show ?case
  proof (cases "n = 1")
    case True
    then show ?thesis by (simp add: bit_length.simps [of 1] bit_length.simps [of 0])
  next
    case False
    with "1.prems" have h: "0 < n div 2" by simp
    let ?k = "bit_length (n div 2)"
    have k: "1 \<le> ?k" using h bit_length_nonneg [of "n div 2 div 2"]
      by (subst bit_length.simps) simp
    have IH: "2 ^ nat (?k - 1) \<le> n div 2" "n div 2 < 2 ^ nat ?k"
      using "1.IH" "1.prems" h by simp_all
    have b: "bit_length n = 1 + ?k" using "1.prems" by (subst bit_length.simps) simp
    have "nat (1 + ?k - 1) = Suc (nat (?k - 1))" "nat (1 + ?k) = Suc (nat ?k)"
      using k by simp_all
    moreover have "2 * 2 ^ nat (?k - 1) \<le> n" using IH(1) by linarith
    moreover have "n < 2 * 2 ^ nat ?k" using IH(2) by linarith
    ultimately show ?thesis unfolding b by simp
  qed
qed

lemma bit_length_pos: "0 < n \<Longrightarrow> 1 \<le> bit_length n"
  using bit_length_nonneg [of "n div 2"] by (subst bit_length.simps) simp

lemma pow2_le_of_int:
  assumes "2 ^ m \<le> (n :: int)"
  shows "(2 :: rat) ^ m \<le> of_int n"
proof -
  have "(of_int (2 ^ m) :: rat) \<le> of_int n"
    using assms by (simp only: of_int_le_iff)
  then show ?thesis by simp
qed

lemma of_int_less_pow2:
  assumes "(n :: int) < 2 ^ m"
  shows "of_int n + 1 \<le> (2 :: rat) ^ m"
proof -
  have "n + 1 \<le> 2 ^ m" using assms by simp
  then have "(of_int (n + 1) :: rat) \<le> of_int (2 ^ m)"
    by (simp only: of_int_le_iff)
  then show ?thesis by simp
qed

lemma floor_log2_bounds:
  assumes "0 < x"
  shows "power_int 2 (floor_log2 x) \<le> x \<and> x < power_int 2 (floor_log2 x + 1)"
proof (cases "1 \<le> x")
  case True
  define n where "n = \<lfloor>x\<rfloor>"
  define k where "k = bit_length n"
  have n: "0 < n" "of_int n \<le> x" "x < of_int n + 1"
    using True unfolding n_def by (simp, linarith, linarith)
  have k: "1 \<le> k" unfolding k_def using n(1) by (rule bit_length_pos)
  have b: "2 ^ nat (k - 1) \<le> n" "n < 2 ^ nat k"
    using bit_length_bounds [OF n(1)] unfolding k_def by simp_all
  have lo: "(2 :: rat) ^ nat (k - 1) \<le> x"
    using pow2_le_of_int [OF b(1)] n(2) by linarith
  have hi: "x < (2 :: rat) ^ nat k"
    using of_int_less_pow2 [OF b(2)] n(3) by linarith
  have f: "floor_log2 x = k - 1"
    using True by (simp add: floor_log2_def n_def k_def)
  show ?thesis
    unfolding f using lo hi k by (simp add: power_int_def)
next
  case False
  define y where "y = 1 / x"
  define n where "n = \<lceil>y\<rceil> - 1"
  define k where "k = bit_length n"
  have y: "1 < y" using False assms unfolding y_def by simp
  have n: "0 < n" "of_int n < y" "y \<le> of_int n + 1"
    using y unfolding n_def by (linarith, linarith, linarith)
  have k: "1 \<le> k" unfolding k_def using n(1) by (rule bit_length_pos)
  have b: "2 ^ nat (k - 1) \<le> n" "n < 2 ^ nat k"
    using bit_length_bounds [OF n(1)] unfolding k_def by simp_all
  have lo: "(2 :: rat) ^ nat (k - 1) < y"
    using pow2_le_of_int [OF b(1)] n(2) by linarith
  have hi: "y \<le> (2 :: rat) ^ nat k"
    using of_int_less_pow2 [OF b(2)] n(3) by linarith
  have f: "floor_log2 x = - k"
    using False by (simp add: floor_log2_def n_def k_def y_def)
  have x: "x = 1 / y" unfolding y_def by simp
  have ypos: "0 < y" using y by simp
  have "1 / (2 :: rat) ^ nat k \<le> 1 / y"
    using hi ypos by (simp add: frac_le)
  moreover have "1 / y < 1 / (2 :: rat) ^ nat (k - 1)"
    using lo by (simp add: frac_less2)
  moreover have "power_int (2 :: rat) (floor_log2 x) = 1 / 2 ^ nat k"
    unfolding f using k by (simp add: power_int_def field_simps)
  moreover have "power_int (2 :: rat) (floor_log2 x + 1) = 1 / 2 ^ nat (k - 1)"
  proof (cases "k = 1")
    case True
    then show ?thesis unfolding f by simp
  next
    case False
    with k have "- k + 1 < 0" "nat (- (- k + 1)) = nat (k - 1)" by simp_all
    then show ?thesis unfolding f by (simp add: power_int_def field_simps)
  qed
  ultimately show ?thesis using x by simp
qed

lemma round_even_near: "\<bar>of_int (round_even m) - m\<bar> \<le> 1 / 2"
proof -
  have "of_int \<lfloor>m\<rfloor> \<le> m" "m < of_int \<lfloor>m\<rfloor> + 1" by linarith+
  then show ?thesis
    unfolding round_even_def Let_def by (auto simp: abs_le_iff)
qed

lemma double_near:
  assumes "power_int 2 (- 1022) \<le> \<bar>x\<bar>"
  shows "\<bar>double x - x\<bar> \<le> \<bar>x\<bar> / 2 ^ 53"
proof -
  define a where "a = \<bar>x\<bar>"
  define L where "L = floor_log2 a"
  have "(0 :: rat) < power_int 2 (- 1022)" by simp
  then have apos: "0 < a" using assms unfolding a_def by linarith
  then have x0: "x \<noteq> 0" unfolding a_def by auto
  have Lb: "power_int 2 L \<le> a" "a < power_int 2 (L + 1)"
    using floor_log2_bounds [OF apos] unfolding L_def by simp_all
  have "- 1022 < L + 1"
  proof (rule ccontr)
    assume "\<not> - 1022 < L + 1"
    then have "L + 1 \<le> - 1022" by simp
    then have "power_int (2 :: rat) (L + 1) \<le> power_int 2 (- 1022)"
      by (rule power_int_increasing) simp
    with Lb(2) assms show False unfolding a_def by linarith
  qed
  then have e: "max (L - 52) (- 1074) = L - 52" by simp
  define P :: rat where "P = power_int 2 (L - 52)"
  have Ppos: "0 < P" unfolding P_def by simp
  have "power_int (2 :: rat) L = power_int 2 (L - 52) * power_int 2 52"
    using power_int_add [of "2 :: rat" "L - 52" 52] by simp
  then have PL: "P * 2 ^ 52 \<le> a" using Lb(1) unfolding P_def by simp
  define r :: rat where "r = of_int (round_even (a / P))"
  have near: "\<bar>r - a / P\<bar> \<le> 1 / 2" unfolding r_def by (rule round_even_near)
  have d: "double x = sgn x * r * P"
    using x0 e unfolding double_def Let_def r_def P_def a_def L_def by simp
  have xs: "x = sgn x * a" unfolding a_def by (simp add: sgn_mult_abs)
  have "double x - x = sgn x * (P * (r - a / P))"
    using Ppos by (subst xs, subst d) (simp add: field_simps)
  then have "\<bar>double x - x\<bar> = P * \<bar>r - a / P\<bar>"
    using x0 Ppos by (simp add: abs_mult abs_sgn_eq)
  also have "\<dots> \<le> P * (1 / 2)"
    using near Ppos by (intro mult_left_mono) simp_all
  also have "\<dots> \<le> a / 2 ^ 53"
    using PL by (simp add: field_simps)
  finally show ?thesis unfolding a_def .
qed

lemma double_100: "double 100 = 100"
  by code_simp


lemma round_even_of_int: "round_even (of_int z) = z"
  by (simp add: round_even_def)

lemma double_of_nat:
  assumes "n < 2 ^ 53"
  shows "double (of_nat n) = of_nat n"
proof (cases "n = 0")
  case True
  then show ?thesis by (simp add: double_def)
next
  case False
  define x :: rat where "x = of_nat n"
  define L where "L = floor_log2 x"
  have x: "1 \<le> x" "x < 2 ^ 53" "0 < x" "\<bar>x\<bar> = x"
    using False assms unfolding x_def
    by (simp_all add: Suc_le_eq of_nat_less_numeral_power_cancel_iff)
  have Lb: "power_int 2 L \<le> x" "x < power_int 2 (L + 1)"
    using floor_log2_bounds [OF x(3)] unfolding L_def by simp_all
  have L1: "0 \<le> L"
  proof (rule ccontr)
    assume "\<not> 0 \<le> L"
    then have "L + 1 \<le> 0" by simp
    then have "power_int (2 :: rat) (L + 1) \<le> power_int 2 0"
      by (rule power_int_increasing) simp
    with Lb(2) x(1) show False by simp
  qed
  have L2: "L \<le> 52"
  proof (rule ccontr)
    assume "\<not> L \<le> 52"
    then have "53 \<le> L" by simp
    then have "power_int (2 :: rat) 53 \<le> power_int 2 L"
      by (rule power_int_increasing) simp
    with Lb(1) x(2) show False by simp
  qed
  define k where "k = nat (52 - L)"
  have e: "max (L - 52) (- 1074) = - int k" using L1 L2 unfolding k_def by simp
  have P: "power_int (2 :: rat) (- int k) = 1 / 2 ^ k"
    by (simp add: power_int_minus field_simps)
  have q: "x / power_int 2 (- int k) = of_int (int n * 2 ^ k)"
    unfolding P x_def by simp
  have "double x = of_int (round_even (x / power_int 2 (- int k))) * power_int 2 (- int k)"
    using x(3,4) e unfolding double_def Let_def L_def by simp
  also have "\<dots> = of_int (int n * 2 ^ k) * power_int 2 (- int k)"
    unfolding q round_even_of_int ..
  also have "\<dots> = of_int (int n * 2 ^ k) * (1 / 2 ^ k)"
    unfolding P ..
  also have "\<dots> = x" unfolding x_def by simp
  finally show ?thesis unfolding x_def .
qed

lemma double_rel:
  assumes "1 / 2 ^ 1022 \<le> x"
  shows "x * (1 - 1 / 2 ^ 53) \<le> double x \<and> double x \<le> x * (1 + 1 / 2 ^ 53)"
proof -
  have p: "0 < x"
  proof -
    have "(0 :: rat) < 1 / 2 ^ 1022" by simp
    with assms show ?thesis by linarith
  qed
  have n: "power_int 2 (- 1022) \<le> \<bar>x\<bar>"
    using assms p by (simp add: power_int_minus field_simps)
  define u :: rat where "u = 1 / 2 ^ 53"
  from double_near [OF n] have a: "\<bar>double x - x\<bar> \<le> x * u"
    using p unfolding u_def by simp
  have "x - x * u \<le> double x \<and> double x \<le> x + x * u"
    using a by linarith
  then have "x * (1 - u) \<le> double x \<and> double x \<le> x * (1 + u)"
    by (simp add: right_diff_distrib distrib_left)
  then show ?thesis unfolding u_def .
qed

lemma percent_near:
  assumes "0 < b" and "b < 2 ^ 53" and "0 < len" and "len < 2 ^ 53"
  shows "\<bar>fmul (fdiv (of_nat b) (of_nat len)) 100 - 100 * of_nat b / of_nat len\<bar>
         \<le> (100 * of_nat b / of_nat len) / 2 ^ 50"
proof -
  define u :: rat where "u = 1 / 2 ^ 53"
  define t :: rat where "t = of_nat b / of_nat len"
  define q where "q = double t"
  define q' where "q' = double q"
  define p where "p = double (q' * 100)"
  have u: "0 < u" "u < 1" "(1 + u) * (1 + u) * (1 + u) \<le> 1 + 8 * u"
    "1 - 8 * u \<le> (1 - u) * (1 - u) * (1 - u)" "1 / 2 \<le> 1 - u"
    unfolding u_def by simp_all
  have f: "fmul (fdiv (of_nat b) (of_nat len)) 100 = p"
    unfolding fmul_def fdiv_def p_def q'_def q_def t_def
    using double_of_nat [OF assms(2)] double_of_nat [OF assms(4)] double_100 by simp
  have "(1 :: rat) \<le> of_nat b" "(of_nat len :: rat) < 2 ^ 53" "(0 :: rat) < of_nat len"
    using assms by (simp_all add: Suc_le_eq of_nat_less_numeral_power_cancel_iff)
  then have "1 / 2 ^ 53 \<le> 1 / (of_nat len :: rat)" "1 / (of_nat len :: rat) \<le> t"
    unfolding t_def by (simp_all add: field_simps)
  then have t: "1 / 2 ^ 53 \<le> t" by linarith
  then have tpos: "0 < t"
  proof -
    have "(0 :: rat) < 1 / 2 ^ 53" by simp
    with t show ?thesis by linarith
  qed
  have "(1 :: rat) / 2 ^ 1022 \<le> 1 / 2 ^ 53" by simp
  with t have "1 / 2 ^ 1022 \<le> t" by linarith
  from double_rel [OF this] have A: "t * (1 - u) \<le> q" "q \<le> t * (1 + u)"
    unfolding q_def u_def by simp_all
  have "1 / 2 ^ 53 * (1 / 2) \<le> t * (1 - u)"
    using t u(5) by (intro mult_mono) simp_all
  then have q: "1 / 2 ^ 54 \<le> q" using A(1) by simp
  have "(1 :: rat) / 2 ^ 1022 \<le> 1 / 2 ^ 54" by simp
  with q have "1 / 2 ^ 1022 \<le> q" by linarith
  from double_rel [OF this] have B: "q * (1 - u) \<le> q'" "q' \<le> q * (1 + u)"
    unfolding q'_def u_def by simp_all
  have "1 / 2 ^ 54 * (1 / 2) \<le> q * (1 - u)"
    using q u(5) by (intro mult_mono) simp_all
  then have q': "1 / 2 ^ 55 \<le> q'" using B(1) by simp
  have "(1 :: rat) / 2 ^ 1022 \<le> 1 / 2 ^ 55 * 100" by simp
  with q' have "1 / 2 ^ 1022 \<le> q' * 100" by linarith
  from double_rel [OF this] have C: "q' * 100 * (1 - u) \<le> p" "p \<le> q' * 100 * (1 + u)"
    unfolding p_def u_def by simp_all
  have up: "p \<le> 100 * t * (1 + 8 * u)"
  proof -
    have "q' \<le> t * (1 + u) * (1 + u)"
      using B(2) mult_right_mono [OF A(2), of "1 + u"] u(1) by linarith
    then have "q' * (100 * (1 + u)) \<le> t * (1 + u) * (1 + u) * (100 * (1 + u))"
      using u(1) by (intro mult_right_mono) simp_all
    then have "q' * 100 * (1 + u) \<le> t * (1 + u) * (1 + u) * 100 * (1 + u)"
      by (simp only: mult.assoc)
    also have "\<dots> = 100 * t * ((1 + u) * (1 + u) * (1 + u))" by simp
    also have "\<dots> \<le> 100 * t * (1 + 8 * u)"
      using u(3) tpos by (intro mult_left_mono) simp_all
    finally show ?thesis using C(2) by linarith
  qed
  have lo: "100 * t * (1 - 8 * u) \<le> p"
  proof -
    have "t * (1 - u) * (1 - u) \<le> q'"
      using B(1) mult_right_mono [OF A(1), of "1 - u"] u(2) by linarith
    then have "t * (1 - u) * (1 - u) * (100 * (1 - u)) \<le> q' * (100 * (1 - u))"
      using u(2) by (intro mult_right_mono) simp_all
    then have "t * (1 - u) * (1 - u) * 100 * (1 - u) \<le> q' * 100 * (1 - u)"
      by (simp only: mult.assoc)
    moreover have "t * (1 - u) * (1 - u) * 100 * (1 - u) = 100 * t * ((1 - u) * (1 - u) * (1 - u))"
      by simp
    moreover have "100 * t * (1 - 8 * u) \<le> 100 * t * ((1 - u) * (1 - u) * (1 - u))"
      using u(4) tpos by (intro mult_left_mono) simp_all
    ultimately show ?thesis using C(1) by linarith
  qed
  define w where "w = 100 * t"
  have "p \<le> w + w * (8 * u)" "w - w * (8 * u) \<le> p"
    using up lo unfolding w_def by (simp_all add: right_diff_distrib distrib_left)
  then have "\<bar>p - w\<bar> \<le> w * (8 * u)" by linarith
  then have "\<bar>p - 100 * t\<bar> \<le> 100 * t * (8 * u)" unfolding w_def .
  moreover have "100 * t * (8 * u) = (100 * of_nat b / of_nat len) / 2 ^ 50"
    unfolding u_def t_def by simp
  moreover have "100 * t = 100 * of_nat b / of_nat len" unfolding t_def by simp
  ultimately show ?thesis unfolding f by simp
qed

section \<open>Labels, confidence and the texts rendered\<close>





lemma contains_prefix: "contains (t @ q) t"
proof (cases "t @ q")
  case Nil
  then show ?thesis by simp
next
  case (Cons a list)
  have "prefix t (t @ q)" by simp
  then show ?thesis unfolding Cons by simp
qed

lemma contains_append: "contains (p @ t @ q) t"
proof (induction p)
  case Nil
  show ?case using contains_prefix by simp
next
  case (Cons c p)
  then show ?case by simp
qed

lemma contains_append2: "contains (p @ t) t"
  using contains_append [of p t "[]"] by simp

lemma contains_in: "s = p @ t @ q \<Longrightarrow> contains s t"
  by (simp add: contains_append)

lemma contains_iff: "contains s t = (\<exists>p q. s = p @ t @ q)"
proof
  show "contains s t \<Longrightarrow> \<exists>p q. s = p @ t @ q"
  proof (induction s)
    case Nil
    then show ?case by simp
  next
    case (Cons c s)
    show ?case
    proof (cases "prefix t (c # s)")
      case True
      then obtain q where "c # s = t @ q" by (auto simp: prefix_def)
      then have "c # s = [] @ t @ q" by simp
      then show ?thesis by blast
    next
      case False
      with Cons obtain p q where "s = p @ t @ q" by auto
      then have "c # s = (c # p) @ t @ q" by simp
      then show ?thesis by blast
    qed
  qed
  show "\<exists>p q. s = p @ t @ q \<Longrightarrow> contains s t"
    using contains_in by blast
qed

lemma contains_within: "contains s t \<Longrightarrow> contains (p @ s @ q) t"
proof -
  assume "contains s t"
  then obtain a b where "s = a @ t @ b" unfolding contains_iff by blast
  then have "p @ s @ q = (p @ a) @ t @ (b @ q)" by simp
  then show ?thesis by (rule contains_in)
qed









section \<open>The handlers: what the result region shows\<close>

lemma empty_text_closed:
  \<open>contains (''<div class="error">'' @ [CHR 0xE2, CHR 0x9D, CHR 0x8C] @
      '' Connection error: Server returned empty response</div>'')
     ''Server returned empty response''\<close>
  \<open>\<not> contains (''<div class="error">'' @ [CHR 0xE2, CHR 0x9D, CHR 0x8C] @
      '' Connection error: Server returned empty response</div>'')
     ''Invalid JSON''\<close>
  by code_simp+

text \<open>
  Claim C3, as amended. A successful response whose body is the empty string makes
  \<open>safeJsonResponse\<close> throw \<^verbatim>\<open>Server returned empty response\<close> before the parser is
  called, whatever the parser; the handler of the single record in \<^verbatim>\<open>static/script.js\<close>
  then writes \<^verbatim>\<open>Connection error: Server returned empty response\<close> into the result
  region and nothing escapes it. The text does not mention invalid JSON, and it differs
  from the text written for a body that the parser rejects, which reads
  \<^verbatim>\<open>Connection error: Invalid JSON response:\<close> followed by the start of the body.
\<close>

theorem empty_body_reported:
  assumes "fetch (manual_request data) = Inr response"
    and "ok response" and "body_text response = Inr []"
  shows \<open>safeJsonResponse JSON_parse response = Inl (Error ''Server returned empty response'') \<and>
         writes (submit_manual upper JSON_parse fetch True data) =
           [loading_manual,
            ''<div class="error">'' @ [CHR 0xE2, CHR 0x9D, CHR 0x8C] @
            '' Connection error: Server returned empty response</div>''] \<and>
         contains (last (writes (submit_manual upper JSON_parse fetch True data)))
           ''Server returned empty response'' \<and>
         \<not> contains (last (writes (submit_manual upper JSON_parse fetch True data)))
           ''Invalid JSON'' \<and>
         uncaught (submit_manual upper JSON_parse fetch True data) = None \<and>
         (txt \<noteq> [] \<and> JSON_parse txt = None \<longrightarrow>
            writes (submit_manual upper JSON_parse (\<lambda>rq. Inr (ok_with txt)) True data) =
              [loading_manual,
               ''<div class="error">'' @ [CHR 0xE2, CHR 0x9D, CHR 0x8C] @
               '' Connection error: Invalid JSON response: '' @ take 100 txt @ ''...</div>''] \<and>
            last (writes (submit_manual upper JSON_parse (\<lambda>rq. Inr (ok_with txt)) True data)) \<noteq>
            last (writes (submit_manual upper JSON_parse fetch True data)))\<close>
proof -
  have w: \<open>writes (submit_manual upper JSON_parse fetch True data) =
           [loading_manual,
            ''<div class="error">'' @ [CHR 0xE2, CHR 0x9D, CHR 0x8C] @
            '' Connection error: Server returned empty response</div>'']\<close>
    using assms
    by (simp add: safeJsonResponse_def submit_manual_def connection_error_html_def
        emoji_cross_def)
  have p: \<open>writes (submit_manual upper JSON_parse (\<lambda>rq. Inr (ok_with txt)) True data) =
              [loading_manual,
               ''<div class="error">'' @ [CHR 0xE2, CHR 0x9D, CHR 0x8C] @
               '' Connection error: Invalid JSON response: '' @ take 100 txt @ ''...</div>'']\<close>
    if "txt \<noteq> []" "JSON_parse txt = None"
    using that
    by (simp add: safeJsonResponse_def submit_manual_def connection_error_html_def
        emoji_cross_def ok_with_def)
  have u: "uncaught (submit_manual upper JSON_parse fetch True data) = None"
    by (simp add: submit_manual_def)
  have s: "safeJsonResponse JSON_parse response = Inl (Error ''Server returned empty response'')"
    using assms by (simp add: safeJsonResponse_def)
  show ?thesis
    using s u p empty_text_closed unfolding w by auto
qed

theorem empty_body_reported_witness:
  \<open>ok (ok_with []) \<and> body_text (ok_with []) = Inr [] \<and>
   writes (submit_manual (\<lambda>s. s) parse_null (\<lambda>rq. Inr (ok_with [])) True []) =
     [loading_manual,
      ''<div class="error">'' @ [CHR 0xE2, CHR 0x9D, CHR 0x8C] @
      '' Connection error: Server returned empty response</div>''] \<and>
   writes (submit_manual (\<lambda>s. s) parse_null (\<lambda>rq. Inr (ok_with ''{not json'')) True []) =
     [loading_manual,
      ''<div class="error">'' @ [CHR 0xE2, CHR 0x9D, CHR 0x8C] @
      '' Connection error: Invalid JSON response: {not json...</div>'']\<close>
proof -
  have a: "(\<lambda>rq. Inr (ok_with [])) (manual_request []) = (Inr (ok_with []) :: js_error + response)"
    by simp
  have b: "ok (ok_with [])" by (simp add: ok_with_def)
  have c: "body_text (ok_with []) = Inr []" by (simp add: ok_with_def)
  have d: "''{not json'' \<noteq> []"
    "parse_null ''{not json'' = (None :: prediction_result parsed option)"
    by (simp_all add: parse_null_def)
  show ?thesis
    using b c d
      empty_body_reported [of "\<lambda>rq. Inr (ok_with [])" "[]" "ok_with []" parse_null
        "\<lambda>s. s" "''{not json''"]
    by simp
qed

text \<open>
  Claim C3 as it is stated fails for a response that is not a success: the status is
  tested before the body is parsed, so for the status 500 with the empty body the region
  shows \<^verbatim>\<open>Server Error (500): Internal Server Error\<close> and no empty-response error.
\<close>

theorem empty_body_reported_counterexample:
  \<open>body_text failed_empty = Inr [] \<and>
   writes (submit_manual (\<lambda>s. s) parse_null (\<lambda>rq. Inr failed_empty) True []) =
     [loading_manual,
      ''<div class="error">'' @ [CHR 0xE2, CHR 0x9D, CHR 0x8C] @
      '' Server Error (500): Internal Server Error</div>''] \<and>
   \<not> contains (''<div class="error">'' @ [CHR 0xE2, CHR 0x9D, CHR 0x8C] @
      '' Server Error (500): Internal Server Error</div>'') ''empty response''\<close>
  by code_simp

text \<open>
  Claim C4. For a body that is not empty and that \<^verbatim>\<open>JSON.parse\<close> rejects,
  \<open>safeJsonResponse\<close> throws \<^verbatim>\<open>Invalid JSON response:\<close> followed by the first hundred
  characters of the body (the whole body when it is shorter) and three dots.
\<close>

theorem invalid_json_reported:
  assumes "body_text response = Inr txt" and "txt \<noteq> []" and "JSON_parse txt = None"
  shows "safeJsonResponse JSON_parse response =
           Inl (Error (''Invalid JSON response: '' @ take 100 txt @ ''...'')) \<and>
         prefix (take 100 txt) txt \<and> length (take 100 txt) \<le> 100 \<and>
         contains (message (Error (''Invalid JSON response: '' @ take 100 txt @ ''...'')))
           (take 100 txt)"
  using assms contains_append [of "''Invalid JSON response: ''" "take 100 txt" "''...''"]
  by (simp add: safeJsonResponse_def take_is_prefix)

theorem invalid_json_reported_witness:
  "body_text (ok_with ''{not json'') = Inr ''{not json'' \<and>
   parse_null ''{not json'' = (None :: unit parsed option) \<and>
   safeJsonResponse (parse_null :: string \<Rightarrow> unit parsed option) (ok_with ''{not json'') =
     Inl (Error ''Invalid JSON response: {not json...'')"
proof -
  have a: "body_text (ok_with ''{not json'') = Inr ''{not json''" by (simp add: ok_with_def)
  have c: "parse_null ''{not json'' = (None :: unit parsed option)" by (simp add: parse_null_def)
  show ?thesis
    using a c
      invalid_json_reported [of "ok_with ''{not json''" "''{not json''"
        "parse_null :: string \<Rightarrow> unit parsed option"]
    by simp
qed

text \<open>
  Claim C5 does not hold of the code. A form whose file input has no file selected puts
  a \<^verbatim>\<open>File\<close> with the empty name and the size \<open>0\<close> under the field, and an object is
  truthy: the test \<^verbatim>\<open>!file\<close> lets it pass and the request is issued. The test stops
  only a form without the field (\<^verbatim>\<open>null\<close>) and an empty string.
\<close>

theorem empty_file_is_uploaded:
  "truthy_entry empty_file \<and>
   requests (submit_csv JSON_parse fetch True empty_file) = [csv_request empty_file] \<and>
   submit_csv JSON_parse fetch True NoEntry =
     \<lparr>writes = [loading_csv, no_file_html], timers = [], requests = [], uncaught = None\<rparr>"
  by (simp add: submit_csv_def empty_file_def)

lemma csv_parsed_cases:
  assumes "result \<noteq> JNull"
  shows "csv_parsed result =
     (case predictions_of result of
        None \<Rightarrow> Inr format_error_html
      | Some ps \<Rightarrow> (case result of JObject r \<Rightarrow> displayCSVResults r | _ \<Rightarrow> Inr format_error_html))"
  using assms
  by (cases result)
    (auto simp: csv_parsed_def predictions_of_def split: predictions_field.splits)

text \<open>
  Every parsed body other than \<^verbatim>\<open>null\<close> goes through the test of the shape: the
  renderer is called only for an object with an array under \<^verbatim>\<open>predictions\<close>, and every
  other body is answered with the format error.
\<close>

lemma csv_shape_checked:
  assumes "truthy_entry file" and "fetch (csv_request file) = Inr response"
    and "ok response" and "body_text response = Inr txt" and "txt \<noteq> []"
    and "JSON_parse txt = Some result" and "result \<noteq> JNull"
  shows "writes (submit_csv JSON_parse fetch True file) =
           [loading_csv,
            (case predictions_of result of
               None \<Rightarrow> format_error_html
             | Some ps \<Rightarrow>
                 (case result of
                    JObject r \<Rightarrow>
                      (case displayCSVResults r of
                         Inr html \<Rightarrow> html
                       | Inl error \<Rightarrow> connection_error_html error)
                  | _ \<Rightarrow> format_error_html))]"
  using assms
  by (simp add: submit_csv_def safeJsonResponse_def csv_parsed_cases
      split: option.splits parsed.splits sum.splits)

text \<open>
  Claim C6 does not hold of the code. The handler tests the shape of the parsed body
  with \<^verbatim>\<open>result.predictions && Array.isArray(result.predictions)\<close>, and the body
  \<^verbatim>\<open>null\<close> parses: the read of \<^verbatim>\<open>result.total_samples\<close> before the test throws, and the
  region shows \<^verbatim>\<open>Connection error: Cannot read properties of null (reading 'total_samples')\<close>
  in place of the format error. An object without \<^verbatim>\<open>predictions\<close> and a number
  are answered with \<^verbatim>\<open>Unexpected response format\<close>, as the test intends.
\<close>

theorem null_body_not_format_error:
  \<open>parse_null ''null'' = Some (JNull :: batch_result parsed) \<and>
   writes (submit_csv parse_null (\<lambda>rq. Inr (ok_with ''null'')) True data_file) =
     [loading_csv,
      ''<div class="error">'' @ [CHR 0xE2, CHR 0x9D, CHR 0x8C] @
      '' Connection error: Cannot read properties of null (reading 'total_samples')</div>''] \<and>
   \<not> contains
       (last (writes (submit_csv parse_null (\<lambda>rq. Inr (ok_with ''null'')) True data_file)))
       ''Unexpected response format'' \<and>
   writes (submit_csv (\<lambda>t. Some (JObject no_predictions)) (\<lambda>rq. Inr (ok_with ''{}'')) True
       data_file) =
     [loading_csv,
      ''<div class="error">'' @ [CHR 0xE2, CHR 0x9D, CHR 0x8C] @
      '' Unexpected response format</div>''] \<and>
   writes (submit_csv (\<lambda>t. Some (JNumber 7)) (\<lambda>rq. Inr (ok_with ''7'')) True data_file) =
     [loading_csv,
      ''<div class="error">'' @ [CHR 0xE2, CHR 0x9D, CHR 0x8C] @
      '' Unexpected response format</div>'']\<close>
  by code_simp

lemma contains_server_error:
  "contains (server_error_html response errorText) (show_nat (status response))"
  "contains (server_error_html response errorText) errorText"
proof -
  show "contains (server_error_html response errorText) (show_nat (status response))"
    unfolding server_error_html_def
    using contains_append [of "''<div class='' @ [CHR 0x22] @ ''error'' @ [CHR 0x22] @ ''>'' @ emoji_cross @ '' Server Error (''"
        "show_nat (status response)"]
    by simp
  show "contains (server_error_html response errorText) errorText"
  proof (cases "errorText = []")
    case True
    then show ?thesis
      using contains_append2 [of "server_error_html response errorText" "[]"] by simp
  next
    case False
    then show ?thesis
      unfolding server_error_html_def
      using contains_append [of "''<div class='' @ [CHR 0x22] @ ''error'' @ [CHR 0x22] @ ''>'' @ emoji_cross @ '' Server Error ('' @ show_nat (status response) @ ''): ''"
        errorText "''</div>''"]
      by simp
  qed
qed

lemma contains_connection_error:
  "contains (connection_error_html error) (message error)"
  unfolding connection_error_html_def
  using contains_append [of "''<div class='' @ [CHR 0x22] @ ''error'' @ [CHR 0x22] @ ''>'' @ emoji_cross @ '' Connection error: ''"
        "message error" "''</div>''"]
  by simp

lemma simulatePrediction_renders:
  "\<exists>html. simulatePrediction upper parseFloat rnd data = (1500, Inr html)"
  by (simp add: simulatePrediction_def displayResult_templates_def Let_def)

text \<open>
  Claim C1, as amended. When the request of a single record is rejected, or answered
  with a status that is not a success, no exception escapes either handler. The handler
  of \<^verbatim>\<open>static/script.js\<close> shows \<^verbatim>\<open>Server Error (status): body\<close>, with the status text
  in place of an empty body, when the body of the failed response can be read, and
  \<^verbatim>\<open>Connection error: message\<close> when the request or the read of the body is rejected (a
  rejected request has no status to show). The handler of \<^verbatim>\<open>templates/script.js\<close> shows
  no error: it registers the timer of \<open>simulatePrediction\<close>, which renders a simulated
  prediction after 1500 ms.
\<close>

theorem manual_failure_reported:
  assumes "fetch (manual_request data) = Inl e \<or>
           (fetch (manual_request data) = Inr response \<and> \<not> ok response)"
  shows "uncaught (submit_manual upper JSON_parse fetch True data) = None \<and>
         requests (submit_manual upper JSON_parse fetch True data) = [manual_request data] \<and>
         writes (submit_manual upper JSON_parse fetch True data) =
           [loading_manual,
            (case fetch (manual_request data) of
               Inl error \<Rightarrow> connection_error_html error
             | Inr r \<Rightarrow>
                 (case body_text r of
                    Inl error \<Rightarrow> connection_error_html error
                  | Inr errorText \<Rightarrow> server_error_html r errorText))] \<and>
         contains (connection_error_html e) (message e) \<and>
         contains (server_error_html response errorText) (show_nat (status response)) \<and>
         contains (server_error_html response errorText) errorText \<and>
         submit_manual_templates upper JSON_parse parseFloat rnd fetch True data =
           \<lparr>writes = [loading_templates],
            timers = [simulatePrediction upper parseFloat rnd data],
            requests = [manual_request data], uncaught = None\<rparr> \<and>
         (\<exists>html. simulatePrediction upper parseFloat rnd data = (1500, Inr html))"
  using assms contains_server_error [of response errorText] contains_connection_error [of e]
    simulatePrediction_renders [of upper parseFloat rnd data]
  by (auto simp: submit_manual_def submit_manual_templates_def Let_def)

theorem manual_failure_reported_witness:
  "\<not> ok failed_500 \<and>
   writes (submit_manual (\<lambda>s. s) parse_null (\<lambda>rq. Inr failed_500) True []) =
     [loading_manual, server_error_html failed_500 ''boom''] \<and>
   writes (submit_manual (\<lambda>s. s) parse_null (\<lambda>rq. Inl (TypeError ''Failed to fetch'')) True []) =
     [loading_manual, connection_error_html (TypeError ''Failed to fetch'')]"
proof -
  have a: "\<not> ok failed_500" "body_text failed_500 = Inr ''boom''"
    by (simp_all add: failed_500_def)
  show ?thesis
    using a
      manual_failure_reported [of "\<lambda>rq. Inr failed_500" "[]" "TypeError []" failed_500
        "\<lambda>s. s" parse_null "''boom''" "\<lambda>s. None" 0]
      manual_failure_reported [of "\<lambda>rq. Inl (TypeError ''Failed to fetch'')" "[]"
        "TypeError ''Failed to fetch''" failed_500 "\<lambda>s. s" parse_null "''boom''" "\<lambda>s. None" 0]
    by simp
qed

text \<open>
  Claim C1 as it is stated fails in \<^verbatim>\<open>templates/script.js\<close>: for the response 500 with
  the body \<^verbatim>\<open>boom\<close> neither the text written at once nor the text of the timer holds
  the status, the body or an error.
\<close>

theorem manual_failure_reported_counterexample:
  "\<not> ok failed_500 \<and> status failed_500 = 500 \<and> body_text failed_500 = Inr ''boom'' \<and>
   submit_manual_templates (\<lambda>s. s) parse_null (\<lambda>s. None) 0 (\<lambda>rq. Inr failed_500) True [] =
     \<lparr>writes = [loading_templates],
      timers = [(1500, Inr (result_html_templates (\<lambda>s. s) ''benign'' ''Benign'' ''75.0''))],
      requests = [manual_request []], uncaught = None\<rparr> \<and>
   \<not> contains loading_templates ''500'' \<and>
   \<not> contains loading_templates ''boom'' \<and>
   \<not> contains (result_html_templates (\<lambda>s. s) ''benign'' ''Benign'' ''75.0'') ''500'' \<and>
   \<not> contains (result_html_templates (\<lambda>s. s) ''benign'' ''Benign'' ''75.0'') ''boom'' \<and>
   \<not> contains (result_html_templates (\<lambda>s. s) ''benign'' ''Benign'' ''75.0'') ''error''"
  by code_simp

section \<open>The batch summary\<close>

lemma count_label_two:
  assumes "a \<noteq> b"
  shows "count_label a rs + count_label b rs + length (filter (\<lambda>p. prediction p = None) rs)
         \<le> length rs"
  using assms by (induction rs) (auto simp: count_label_def)

lemma all_labelled:
  assumes "a \<noteq> b" and "count_label a rs + count_label b rs = length rs"
  shows "\<forall>p \<in> set rs. prediction p \<noteq> None"
proof -
  have "length (filter (\<lambda>p. prediction p = None) rs) = 0"
    using count_label_two [OF assms(1), of rs] assms(2) by simp
  then show ?thesis by (simp add: filter_empty_conv)
qed

lemma csv_rows_labelled:
  "\<forall>p \<in> set rs. prediction p \<noteq> None \<Longrightarrow> \<exists>rows. csv_rows i rs = Inr rows"
proof (induction rs arbitrary: i)
  case Nil
  show ?case by simp
next
  case (Cons p rs)
  then obtain label where l: "prediction p = Some label" by auto
  from Cons obtain rows where "csv_rows (i + 1) rs = Inr rows" by fastforce
  with l show ?case by simp
qed

lemma displayCSVResults_summary:
  assumes "predictions r = PredictionsArray results"
    and "\<forall>p \<in> set results. prediction p \<noteq> None"
  shows "\<exists>pre. displayCSVResults r =
           Inr (pre @ summary_html (benignCount r results) (malignantCount r results)
                        (length results) @ ''</div>'')"
proof -
  obtain rows where "csv_rows 0 results = Inr rows"
    using csv_rows_labelled [OF assms(2)] by blast
  then have "displayCSVResults r =
      Inr ((csv_head_html (length results) @ column_info_html r @ table_head_html @ rows @
            ''</tbody></table>'') @
           summary_html (benignCount r results) (malignantCount r results) (length results) @
           ''</div>'')"
    using assms(1) by (simp add: displayCSVResults_def)
  then show ?thesis by blast
qed

lemma summary_html_shows:
  \<open>contains (summary_html b m len)
     (''<p>'' @ [CHR 0xE2, CHR 0x9C, CHR 0x85] @ '' Benign: '' @ show_nat b @ '' samples ('' @
      percent_of b len @ ''%)</p>'')\<close>
  \<open>contains (summary_html b m len)
     (''<p>'' @ [CHR 0xE2, CHR 0x9A, CHR 0xA0, CHR 0xEF, CHR 0xB8, CHR 0x8F] @ '' Malignant: '' @
      show_nat m @ '' samples ('' @ percent_of m len @ ''%)</p>'')\<close>
proof -
  show \<open>contains (summary_html b m len)
     (''<p>'' @ [CHR 0xE2, CHR 0x9C, CHR 0x85] @ '' Benign: '' @ show_nat b @ '' samples ('' @
      percent_of b len @ ''%)</p>'')\<close>
    by (rule contains_in [where
          p = "nl @ ''    <div class='' @ [CHR 0x22] @ ''summary'' @ [CHR 0x22] @ ''>'' @
               nl @ ''      <h4>'' @ emoji_chart @ '' ML Model Summary</h4>'' @ nl @ ''      ''"
          and q = "nl @ ''      <p>'' @ emoji_warning @ '' Malignant: '' @ show_nat m @
                   '' samples ('' @ percent_of m len @ ''%)</p>'' @
                   nl @ ''      <small>'' @ emoji_robot @
                   '' Predictions made using your trained model.pkl</small>'' @
                   nl @ ''    </div>'' @ nl @ ''  ''"])
      (simp add: summary_html_def emoji_check_def)
  show \<open>contains (summary_html b m len)
     (''<p>'' @ [CHR 0xE2, CHR 0x9A, CHR 0xA0, CHR 0xEF, CHR 0xB8, CHR 0x8F] @ '' Malignant: '' @
      show_nat m @ '' samples ('' @ percent_of m len @ ''%)</p>'')\<close>
    by (rule contains_in [where
          p = "nl @ ''    <div class='' @ [CHR 0x22] @ ''summary'' @ [CHR 0x22] @ ''>'' @
               nl @ ''      <h4>'' @ emoji_chart @ '' ML Model Summary</h4>'' @
               nl @ ''      <p>'' @ emoji_check @ '' Benign: '' @ show_nat b @
               '' samples ('' @ percent_of b len @ ''%)</p>'' @ nl @ ''      ''"
          and q = "nl @ ''      <small>'' @ emoji_robot @
                   '' Predictions made using your trained model.pkl</small>'' @
                   nl @ ''    </div>'' @ nl @ ''  ''"])
      (simp add: summary_html_def emoji_warning_def)
qed

lemma displayCSVResults_shows:
  assumes "predictions r = PredictionsArray results"
    and "\<forall>p \<in> set results. prediction p \<noteq> None"
  shows \<open>\<exists>html. displayCSVResults r = Inr html \<and>
     contains html
       (''<p>'' @ [CHR 0xE2, CHR 0x9C, CHR 0x85] @ '' Benign: '' @
        show_nat (benignCount r results) @ '' samples ('' @
        percent_of (benignCount r results) (length results) @ ''%)</p>'') \<and>
     contains html
       (''<p>'' @ [CHR 0xE2, CHR 0x9A, CHR 0xA0, CHR 0xEF, CHR 0xB8, CHR 0x8F] @ '' Malignant: '' @
        show_nat (malignantCount r results) @ '' samples ('' @
        percent_of (malignantCount r results) (length results) @ ''%)</p>'')\<close>
proof -
  obtain pre where "displayCSVResults r =
      Inr (pre @ summary_html (benignCount r results) (malignantCount r results)
                   (length results) @ ''</div>'')"
    using displayCSVResults_summary [OF assms] by blast
  then show ?thesis
    using contains_within [OF summary_html_shows(1)] contains_within [OF summary_html_shows(2)]
    by blast
qed

lemma percent_examples:
  "percent_of 3 5 = ''60.0''" "percent_of 2 5 = ''40.0''" "percent_of 23 80 = ''28.7''"
  "percent_of 1 3 = ''33.3''" "percent_of 0 0 = ''NaN''" "percent_of 1 0 = ''Infinity''"
  "show_nat 3 = ''3''" "show_nat 2 = ''2''"
  by code_simp+

text \<open>
  Claim C7, as amended. For five rows of which three are labelled benign and two
  malignant (in any case, in any order) and no explicit counts, the summary reads
  \<^verbatim>\<open>Benign: 3 samples (60.0%)\<close> and \<^verbatim>\<open>Malignant: 2 samples (40.0%)\<close>. An explicit count
  other than \<open>0\<close> is shown in place of the count of the filtered rows; an explicit count
  of \<open>0\<close> is treated as absent, and the filtered rows are counted. In general the two
  lines of the summary show the counts and \<^verbatim>\<open>((count / length) * 100).toFixed(1)\<close>, computed
  in binary64: the number printed is within \<open>2\<^sup>-\<^sup>5\<^sup>0\<close> of the exact percentage
  relatively before it is cut to one decimal, and 23 rows of 80 print as \<^verbatim>\<open>28.7\<close>.
\<close>

theorem batch_summary:
  \<open>(predictions r = PredictionsArray results \<and> length results = 5 \<and>
    count_label ''benign'' results = 3 \<and> count_label ''malignant'' results = 2 \<and>
    benign_count r = None \<and> malignant_count r = None \<longrightarrow>
      (\<exists>pre. displayCSVResults r = Inr (pre @ summary_html 3 2 5 @ ''</div>'')) \<and>
      (\<exists>html. displayCSVResults r = Inr html \<and>
         contains html
           (''<p>'' @ [CHR 0xE2, CHR 0x9C, CHR 0x85] @ '' Benign: 3 samples (60.0%)</p>'') \<and>
         contains html
           (''<p>'' @ [CHR 0xE2, CHR 0x9A, CHR 0xA0, CHR 0xEF, CHR 0xB8, CHR 0x8F] @
            '' Malignant: 2 samples (40.0%)</p>''))) \<and>
   (benign_count r = Some b \<and> b \<noteq> 0 \<longrightarrow> benignCount r results = b) \<and>
   (malignant_count r = Some m \<and> m \<noteq> 0 \<longrightarrow> malignantCount r results = m) \<and>
   (benign_count r = Some 0 \<longrightarrow> benignCount r results = count_label ''benign'' results) \<and>
   (malignant_count r = Some 0 \<longrightarrow>
      malignantCount r results = count_label ''malignant'' results) \<and>
   (predictions r = PredictionsArray results \<and> (\<forall>p \<in> set results. prediction p \<noteq> None) \<and>
    benignCount r results < 2 ^ 53 \<and> malignantCount r results < 2 ^ 53 \<longrightarrow>
      (\<exists>pre. displayCSVResults r =
         Inr (pre @ summary_html (benignCount r results) (malignantCount r results)
                      (length results) @ ''</div>'')) \<and>
      (\<exists>html. displayCSVResults r = Inr html \<and>
         contains html
           (''<p>'' @ [CHR 0xE2, CHR 0x9C, CHR 0x85] @ '' Benign: '' @
            show_nat (benignCount r results) @ '' samples ('' @
            percent_of (benignCount r results) (length results) @ ''%)</p>'') \<and>
         contains html
           (''<p>'' @ [CHR 0xE2, CHR 0x9A, CHR 0xA0, CHR 0xEF, CHR 0xB8, CHR 0x8F] @
            '' Malignant: '' @ show_nat (malignantCount r results) @ '' samples ('' @
            percent_of (malignantCount r results) (length results) @ ''%)</p>''))) \<and>
   (0 < n \<and> n < 2 ^ 53 \<and> 0 < len \<and> len < 2 ^ 53 \<longrightarrow>
      percent_of n len = toFixed1 (fmul (fdiv (of_nat n) (of_nat len)) 100) \<and>
      \<bar>fmul (fdiv (of_nat n) (of_nat len)) 100 - 100 * of_nat n / of_nat len\<bar>
        \<le> (100 * of_nat n / of_nat len) / 2 ^ 50) \<and>
   percent_of 23 80 = ''28.7'' \<and> percent_of 1 3 = ''33.3'' \<and>
   percent_of 0 0 = ''NaN'' \<and> percent_of 1 0 = ''Infinity''\<close>
proof -
  have first:
    \<open>(\<exists>pre. displayCSVResults r = Inr (pre @ summary_html 3 2 5 @ ''</div>'')) \<and>
      (\<exists>html. displayCSVResults r = Inr html \<and>
         contains html
           (''<p>'' @ [CHR 0xE2, CHR 0x9C, CHR 0x85] @ '' Benign: 3 samples (60.0%)</p>'') \<and>
         contains html
           (''<p>'' @ [CHR 0xE2, CHR 0x9A, CHR 0xA0, CHR 0xEF, CHR 0xB8, CHR 0x8F] @
            '' Malignant: 2 samples (40.0%)</p>''))\<close>
    if h: "predictions r = PredictionsArray results" "length results = 5"
      "count_label ''benign'' results = 3" "count_label ''malignant'' results = 2"
      "benign_count r = None" "malignant_count r = None"
  proof -
    have l: "\<forall>p \<in> set results. prediction p \<noteq> None"
      by (rule all_labelled [of "''benign''" "''malignant''"]) (simp_all add: h)
    have c: "benignCount r results = 3" "malignantCount r results = 2"
      by (simp_all add: benignCount_def malignantCount_def or_count_def h)
    show ?thesis
      using displayCSVResults_summary [OF h(1) l] displayCSVResults_shows [OF h(1) l]
      unfolding c h(2) percent_examples by simp
  qed
  have counts:
    "benign_count r = Some b \<and> b \<noteq> 0 \<longrightarrow> benignCount r results = b"
    "malignant_count r = Some m \<and> m \<noteq> 0 \<longrightarrow> malignantCount r results = m"
    "benign_count r = Some 0 \<longrightarrow> benignCount r results = count_label ''benign'' results"
    "malignant_count r = Some 0 \<longrightarrow>
       malignantCount r results = count_label ''malignant'' results"
    by (simp_all add: benignCount_def malignantCount_def or_count_def)
  have pct: "percent_of n len = toFixed1 (fmul (fdiv (of_nat n) (of_nat len)) 100)"
    if "0 < len"
    using that by (simp add: percent_of_def)
  show ?thesis
    using first counts displayCSVResults_summary [of r results]
      displayCSVResults_shows [of r results] pct percent_near [of n len] percent_examples(3-6)
    by blast
qed

theorem batch_summary_witness:
  \<open>length five_results = 5 \<and> count_label ''benign'' five_results = 3 \<and>
   count_label ''malignant'' five_results = 2 \<and>
   (\<exists>pre. displayCSVResults (batch_of five_results None None) =
      Inr (pre @ summary_html 3 2 5 @ ''</div>'')) \<and>
   (\<exists>html. displayCSVResults (batch_of five_results None None) = Inr html \<and>
      contains html
        (''<p>'' @ [CHR 0xE2, CHR 0x9C, CHR 0x85] @ '' Benign: 3 samples (60.0%)</p>'') \<and>
      contains html
        (''<p>'' @ [CHR 0xE2, CHR 0x9A, CHR 0xA0, CHR 0xEF, CHR 0xB8, CHR 0x8F] @
         '' Malignant: 2 samples (40.0%)</p>'')) \<and>
   benignCount (batch_of five_results (Some 4) (Some 1)) five_results = 4 \<and>
   malignantCount (batch_of five_results (Some 4) (Some 1)) five_results = 1 \<and>
   percent_of 23 80 = toFixed1 (fmul (fdiv 23 80) 100)\<close>
proof -
  have a: "length five_results = 5" "count_label ''benign'' five_results = 3"
    "count_label ''malignant'' five_results = 2"
    by code_simp+
  have b: "predictions (batch_of five_results x y) = PredictionsArray five_results"
    "benign_count (batch_of five_results x y) = x"
    "malignant_count (batch_of five_results x y) = y" for x y
    by (simp_all add: batch_of_def)
  show ?thesis
    using a b batch_summary [of "batch_of five_results None None" five_results 4 1 23 80]
      batch_summary [of "batch_of five_results (Some 4) (Some 1)" five_results 4 1 23 80]
    by simp
qed

text \<open>
  Claim C7 as it is stated fails for an explicit count of \<open>0\<close>: with one row labelled
  benign and \<^verbatim>\<open>benign_count: 0\<close> the summary shows the filtered count \<open>1\<close>.
\<close>

theorem batch_summary_counterexample:
  \<open>benign_count (batch_of one_benign (Some 0) (Some 1)) = Some 0 \<and>
   count_label ''benign'' one_benign = 1 \<and>
   benignCount (batch_of one_benign (Some 0) (Some 1)) one_benign = 1 \<and>
   (case displayCSVResults (batch_of one_benign (Some 0) (Some 1)) of
      Inr html \<Rightarrow>
        contains html
          (''<p>'' @ [CHR 0xE2, CHR 0x9C, CHR 0x85] @ '' Benign: 1 samples (100.0%)</p>'')
    | Inl error \<Rightarrow> False)\<close>
  by code_simp

end
